theory Spec2Isabelle
  imports Main "HOL-Library.Multiset"
begin

section \<open>The migration engine (class DatabaseMigrations)\<close>

text \<open>
  The engine talks to three things: the PostgreSQL database behind \<open>pool\<close>, the
  directory \<open>src/migrations\<close>, and the console. The model threads one record, the world,
  through every method. A method that can throw returns \<open>(error + 'a) \<times> world\<close>: the world
  is returned on both paths, since what a method wrote before it threw stays written.

  Scope of the model.
  \<^item> The database is reachable and healthy: a statement fails only for a reason of the
    schema (the relation or the column is missing) or of integer range.
  \<^item> The \<open>up\<close> and \<open>down\<close> operations of a migration are opaque functions on the part of the
    database that is not the \<open>migrations\<close> table (the type variable \<open>'u\<close>); they may fail and
    may change that part also when they fail. They do not touch the ledger table, the
    migrations directory or the clock.
  \<^item> \<open>CURRENT_TIMESTAMP\<close> is a logical clock: an INSERT reads it and it then moves on.
  \<^item> Strings are byte strings; ANSI colour codes and emoji of the console texts are left out.
  \<^item> The surrogate key \<open>id\<close> of the ledger table is read by no statement and is left out;
    a migration name fits the 255 characters of column \<open>migration_name\<close>.
  \<^item> Fields \<open>calls\<close> and \<open>batch_queries\<close> of the world are observations, not state of the
    program: the list of the \<open>up()\<close> and \<open>down()\<close> invocations made so far, and the number
    of times the statement of getNextBatchNumber has been sent to the database.
  \<^item> The \<open>finally\<close> clauses, which close the connection pool when the process was started
    with \<open>-e\<close>, concern the handle through which the store is reached and are left out.
\<close>

subsection \<open>Data\<close>

datatype error =
    Error string              \<comment> \<open>\<open>new Error(message)\<close> thrown by the engine or by \<open>require\<close>\<close>
  | QueryError string         \<comment> \<open>a rejected \<open>pool.query\<close>\<close>
  | OperationFailure string   \<comment> \<open>whatever \<open>up()\<close> or \<open>down()\<close> threw\<close>

datatype console_line =
    Out string                \<comment> \<open>\<open>console.log(text)\<close>\<close>
  | Err string error          \<comment> \<open>\<open>console.error(text, error)\<close>\<close>

text \<open>The invocations of migration operations, with the migration's name and what the
  operation threw (\<open>None\<close>: it returned).\<close>

datatype call =
    Up string "error option"
  | Down string "error option"

text \<open>interface MigrationFile\<close>

record MigrationFile =
  filename :: string
  timestamp :: string
  name :: string

text \<open>A row of table \<open>migrations\<close>. Column \<open>batch\<close> is nullable; \<open>None\<close> is NULL (and the
  value of every row while the table has no such column).\<close>

record row =
  migration_name :: string
  executed_at :: nat
  batch :: "int option"

record table =
  has_batch :: bool
  rows :: "row list"

text \<open>A migration class: \<open>new MigrationClass()\<close> followed by \<open>up()\<close> or \<open>down()\<close>.\<close>

record 'u migration_class =
  up :: "'u \<Rightarrow> error option \<times> 'u"
  down :: "'u \<Rightarrow> error option \<times> 'u"

text \<open>What \<open>require\<close> returns: the default export and the named exports in key order; an
  export whose value is falsy is \<open>None\<close>.\<close>

record 'u migration_module =
  default_export :: "'u migration_class option"
  named_exports :: "(string \<times> 'u migration_class option) list"

text \<open>The loadable modules by file name; \<open>None\<close>: \<open>require\<close> throws.\<close>

type_synonym 'u modules = "string \<Rightarrow> 'u migration_module option"

record 'u world =
  migrations :: "table option"      \<comment> \<open>table \<open>public.migrations\<close>; \<open>None\<close>: it does not exist\<close>
  store :: 'u                       \<comment> \<open>the rest of the database\<close>
  dir :: "string list option"       \<comment> \<open>entries of \<open>migrationsPath\<close>; \<open>None\<close>: no such path\<close>
  now :: nat                        \<comment> \<open>the clock behind \<open>CURRENT_TIMESTAMP\<close>\<close>
  console :: "console_line list"
  calls :: "call list"
  batch_queries :: nat              \<comment> \<open>how often the statement of getNextBatchNumber was sent\<close>

type_synonym ('a, 'u) outcome = "(error + 'a) \<times> 'u world"

definition log :: "string \<Rightarrow> 'u world \<Rightarrow> 'u world" where
  "log text w = w\<lparr>console := console w @ [Out text]\<rparr>"

text \<open>\<open>try { ... } catch (error) { console.error(text, error); throw error; }\<close>\<close>

definition catch_log :: "string \<Rightarrow> ('a, 'u) outcome \<Rightarrow> ('a, 'u) outcome" where
  "catch_log text res =
     (case res of
        (Inl e, w) \<Rightarrow> (Inl e, w\<lparr>console := console w @ [Err text e]\<rparr>)
      | (Inr v, w) \<Rightarrow> (Inr v, w))"

subsection \<open>The statements sent to the database\<close>

definition relation_missing :: error where
  "relation_missing = QueryError ''relation migrations does not exist''"

definition column_missing :: error where
  "column_missing = QueryError ''column batch does not exist''"

definition integer_out_of_range :: error where
  "integer_out_of_range = QueryError ''integer out of range''"

definition columns :: "table \<Rightarrow> string list" where
  "columns t = [''id'', ''migration_name'', ''executed_at''] @ (if has_batch t then [''batch''] else [])"

text \<open>\<open>ORDER BY executed_at DESC\<close>. SQL leaves the order of rows of equal time open; the model
  takes one (a stable sort, reversed).\<close>

definition order_by_executed_at_desc :: "row list \<Rightarrow> row list" where
  "order_by_executed_at_desc rs = rev (sort_key executed_at rs)"

text \<open>\<open>MAX(batch)\<close>: NULL for no rows or only NULLs.\<close>

fun max_batch :: "row list \<Rightarrow> int option" where
  "max_batch [] = None"
| "max_batch (r # rs) =
     (case batch r of
        None \<Rightarrow> max_batch rs
      | Some b \<Rightarrow> (case max_batch rs of None \<Rightarrow> Some b | Some m \<Rightarrow> Some (max b m)))"

text \<open>\<open>INSERT INTO migrations (...) VALUES (...) ON CONFLICT (migration_name) DO NOTHING\<close>\<close>

definition insert_on_conflict_do_nothing :: "string \<Rightarrow> int option \<Rightarrow> table \<Rightarrow> 'u world \<Rightarrow> 'u world" where
  "insert_on_conflict_do_nothing n b t w =
     (if n \<in> set (map migration_name (rows t))
      then w\<lparr>now := Suc (now w)\<rparr>
      else w\<lparr>migrations := Some (t\<lparr>rows := rows t @ [\<lparr>migration_name = n, executed_at = now w, batch = b\<rparr>]\<rparr>),
             now := Suc (now w)\<rparr>)"

text \<open>private async checkColumnExists(tableName, columnName)\<close>

definition checkColumnExists :: "string \<Rightarrow> string \<Rightarrow> 'u world \<Rightarrow> bool" where
  "checkColumnExists tableName columnName w =
     (case migrations w of
        None \<Rightarrow> False
      | Some t \<Rightarrow> tableName = ''migrations'' \<and> columnName \<in> set (columns t))"

text \<open>private async migrationTableExists()\<close>

definition migrationTableExists :: "'u world \<Rightarrow> bool" where
  "migrationTableExists w = (migrations w \<noteq> None)"

text \<open>private async createMigrationsTable(): \<open>CREATE TABLE IF NOT EXISTS\<close> with the three
  original columns; then, if column \<open>batch\<close> is missing, \<open>ADD COLUMN batch INTEGER DEFAULT 1\<close>
  (which gives every existing row the default) and \<open>UPDATE ... SET batch = 1 WHERE batch IS NULL\<close>.\<close>

definition createMigrationsTable :: "'u world \<Rightarrow> 'u world" where
  "createMigrationsTable w =
     (let w1 = (case migrations w of
                  None \<Rightarrow> w\<lparr>migrations := Some \<lparr>has_batch = False, rows = []\<rparr>\<rparr>
                | Some t \<Rightarrow> w);
          batchColumnExists = checkColumnExists ''migrations'' ''batch'' w1;
          w2 = (if \<not> batchColumnExists
                then (case migrations w1 of
                        None \<Rightarrow> w1
                      | Some t \<Rightarrow>
                          (let added = t\<lparr>has_batch := True, rows := map (\<lambda>r. r\<lparr>batch := Some 1\<rparr>) (rows t)\<rparr>;
                               updated = added\<lparr>rows := map (\<lambda>r. if batch r = None then r\<lparr>batch := Some 1\<rparr> else r) (rows added)\<rparr>
                           in w1\<lparr>migrations := Some updated\<rparr>))
                else w1)
      in log ''Migration table created/updated successfully'' w2)"

text \<open>private async isMigrationExecuted(migrationName)\<close>

definition isMigrationExecuted :: "string \<Rightarrow> 'u world \<Rightarrow> error + bool" where
  "isMigrationExecuted migrationName w =
     (case migrations w of
        None \<Rightarrow> Inl relation_missing
      | Some t \<Rightarrow> Inr (migrationName \<in> set (map migration_name (rows t))))"

text \<open>private async markMigrationExecuted(migrationName, batch?): \<open>if (batch)\<close> is false for
  an absent argument and for 0.\<close>

definition markMigrationExecuted :: "string \<Rightarrow> int option \<Rightarrow> 'u world \<Rightarrow> (unit, 'u) outcome" where
  "markMigrationExecuted migrationName batch_arg w =
     (case migrations w of
        None \<Rightarrow> (Inl relation_missing, w)
      | Some t \<Rightarrow>
          (if batch_arg \<noteq> None \<and> batch_arg \<noteq> Some 0
           then (if has_batch t
                 then (Inr (), insert_on_conflict_do_nothing migrationName batch_arg t w)
                 else (Inl column_missing, w))
           else (Inr (), insert_on_conflict_do_nothing migrationName
                           (if has_batch t then Some 1 else None) t w)))"

text \<open>private async getExecutedMigrations()\<close>

definition getExecutedMigrations :: "'u world \<Rightarrow> error + string list" where
  "getExecutedMigrations w =
     (case migrations w of
        None \<Rightarrow> Inl relation_missing
      | Some t \<Rightarrow> Inr (map migration_name (order_by_executed_at_desc (rows t))))"

text \<open>private async getExecutedMigrationsWithDetails()\<close>

definition getExecutedMigrationsWithDetails :: "'u world \<Rightarrow> error + (string \<times> nat) list" where
  "getExecutedMigrationsWithDetails w =
     (case migrations w of
        None \<Rightarrow> Inl relation_missing
      | Some t \<Rightarrow> Inr (map (\<lambda>r. (migration_name r, executed_at r)) (order_by_executed_at_desc (rows t))))"

text \<open>private async getLastBatch(): \<open>WHERE batch = (SELECT MAX(batch) FROM migrations)\<close> holds
  for no row when the maximum is NULL.\<close>

definition getLastBatch :: "'u world \<Rightarrow> error + string list" where
  "getLastBatch w =
     (case migrations w of
        None \<Rightarrow> Inl relation_missing
      | Some t \<Rightarrow>
          (if \<not> has_batch t then Inl column_missing
           else Inr (map migration_name
                  (order_by_executed_at_desc
                     (filter (\<lambda>r. batch r \<noteq> None \<and> batch r = max_batch (rows t)) (rows t))))))"

text \<open>\<open>SELECT COALESCE(MAX(batch), 0) + 1 as next_batch FROM migrations\<close>, in 32-bit
  integers, where an overflow is an error.\<close>

definition next_batch_statement :: "'u world \<Rightarrow> error + int" where
  "next_batch_statement w =
     (case migrations w of
        None \<Rightarrow> Inl relation_missing
      | Some t \<Rightarrow>
          (if \<not> has_batch t then Inl column_missing
           else (let m = (case max_batch (rows t) of None \<Rightarrow> 0 | Some b \<Rightarrow> b)
                 in if m + 1 > 2147483647 then Inl integer_out_of_range else Inr (m + 1))))"

text \<open>private async getNextBatchNumber(): sends the statement, which is counted.\<close>

definition getNextBatchNumber :: "'u world \<Rightarrow> (int, 'u) outcome" where
  "getNextBatchNumber w = (next_batch_statement w, w\<lparr>batch_queries := Suc (batch_queries w)\<rparr>)"

text \<open>private async removeMigrationRecord(migrationName)\<close>

definition removeMigrationRecord :: "string \<Rightarrow> 'u world \<Rightarrow> (unit, 'u) outcome" where
  "removeMigrationRecord migrationName w =
     (case migrations w of
        None \<Rightarrow> (Inl relation_missing, w)
      | Some t \<Rightarrow>
          (Inr (), w\<lparr>migrations := Some (t\<lparr>rows := filter (\<lambda>r. migration_name r \<noteq> migrationName) (rows t)\<rparr>)\<rparr>))"

subsection \<open>Discovery\<close>

text \<open>\<open>String.prototype.endsWith\<close>\<close>

definition endsWith :: "string \<Rightarrow> string \<Rightarrow> bool" where
  "endsWith s suffix = (length suffix \<le> length s \<and> drop (length s - length suffix) s = suffix)"

text \<open>The default order of \<open>Array.prototype.sort\<close> on strings: by code units, a proper prefix
  first.\<close>

fun string_le :: "string \<Rightarrow> string \<Rightarrow> bool" where
  "string_le [] ys = True"
| "string_le (x # xs) [] = False"
| "string_le (x # xs) (y # ys) = ((of_char x :: nat) < of_char y \<or> (x = y \<and> string_le xs ys))"

fun insert_string :: "string \<Rightarrow> string list \<Rightarrow> string list" where
  "insert_string s [] = [s]"
| "insert_string s (x # xs) = (if string_le s x then s # x # xs else x # insert_string s xs)"

definition sort_strings :: "string list \<Rightarrow> string list" where
  "sort_strings xs = foldr insert_string xs []"

text \<open>\<open>\d\<close> and the characters that \<open>.\<close> does not match (of those a byte can be).\<close>

definition is_digit :: "char \<Rightarrow> bool" where
  "is_digit c = (c \<in> set ''0123456789'')"

definition is_line_terminator :: "char \<Rightarrow> bool" where
  "is_line_terminator c = (c = CHR 0x0A \<or> c = CHR 0x0D)"

text \<open>\<open>filename.match(/^(\d{8}T\d{6})_(.+)\.(ts|js)$/)\<close>: the two first groups of the match.
  The extension is the last three characters, so the greedy \<open>(.+)\<close> is all that lies between
  the underscore and the extension.\<close>

definition match_filename :: "string \<Rightarrow> (string \<times> string) option" where
  "match_filename f =
     (let ts = take 15 f;
          body = drop 16 f;
          n = take (length body - 3) body;
          ext = drop (length body - 3) body
      in if length ts = 15 \<and> list_all is_digit (take 8 ts) \<and> take 1 (drop 8 ts) = ''T''
            \<and> list_all is_digit (drop 9 ts) \<and> take 1 (drop 15 f) = ''_''
            \<and> n \<noteq> [] \<and> \<not> list_ex is_line_terminator n
            \<and> (ext = ''.ts'' \<or> ext = ''.js'')
         then Some (ts, n) else None)"

text \<open>\<open>files.map(filename => ...)\<close>, which throws at the first name that does not match.\<close>

fun parse_filenames :: "string list \<Rightarrow> error + MigrationFile list" where
  "parse_filenames [] = Inr []"
| "parse_filenames (f # fs) =
     (case match_filename f of
        None \<Rightarrow> Inl (Error (''Invalid migration filename format: '' @ f))
      | Some (ts, n) \<Rightarrow>
          (case parse_filenames fs of
             Inl e \<Rightarrow> Inl e
           | Inr ms \<Rightarrow> Inr (\<lparr>filename = f, timestamp = ts, name = n\<rparr> # ms)))"

text \<open>private async getMigrationFiles()\<close>

definition getMigrationFiles :: "'u world \<Rightarrow> (MigrationFile list, 'u) outcome" where
  "getMigrationFiles w =
     (case dir w of
        None \<Rightarrow> (Inr [], w\<lparr>dir := Some []\<rparr>)
      | Some entries \<Rightarrow>
          (parse_filenames
             (sort_strings (filter (\<lambda>file. endsWith file ''.ts'' \<or> endsWith file ''.js'') entries)),
           w))"

text \<open>The lines that executeMigration and rollbackSingleMigration share: \<open>require\<close> the file,
  take the default export or else the first named export whose name ends with
  \<open>Migration\<close>, and throw when there is none.\<close>

definition load_migration_class :: "'u modules \<Rightarrow> MigrationFile \<Rightarrow> error + 'u migration_class" where
  "load_migration_class modules migration =
     (case modules (filename migration) of
        None \<Rightarrow> Inl (Error (''Cannot find module '' @ filename migration))
      | Some migrationModule \<Rightarrow>
          (let MigrationClass =
                 (case default_export migrationModule of
                    Some c \<Rightarrow> Some c
                  | None \<Rightarrow>
                      (case find (\<lambda>(exportName, v). endsWith exportName ''Migration'')
                              (named_exports migrationModule) of
                         None \<Rightarrow> None
                       | Some (migrationClassName, v) \<Rightarrow> v))
           in case MigrationClass of
                None \<Rightarrow> Inl (Error (''No migration class found in '' @ filename migration))
              | Some c \<Rightarrow> Inr c))"

subsection \<open>Runner\<close>

text \<open>private async executeMigration(migration)\<close>

definition executeMigration :: "'u modules \<Rightarrow> MigrationFile \<Rightarrow> 'u world \<Rightarrow> (bool, 'u) outcome" where
  "executeMigration modules migration w =
     (case isMigrationExecuted (name migration) w of
        Inl e \<Rightarrow> (Inl e, w)
      | Inr True \<Rightarrow> (Inr False, w)
      | Inr False \<Rightarrow>
          (let w1 = log (''Migrating: '' @ name migration) w
           in catch_log (''Migration '' @ name migration @ '' failed:'')
                (case load_migration_class modules migration of
                   Inl e \<Rightarrow> (Inl e, w1)
                 | Inr c \<Rightarrow>
                     (case up c (store w1) of
                        (Some e, s) \<Rightarrow>
                          (Inl e, w1\<lparr>store := s, calls := calls w1 @ [Up (name migration) (Some e)]\<rparr>)
                      | (None, s) \<Rightarrow>
                          (Inr True,
                           log (''Migrated: '' @ name migration)
                             (w1\<lparr>store := s, calls := calls w1 @ [Up (name migration) None]\<rparr>))))))"

text \<open>The \<open>for (const migration of migrationFiles)\<close> loop of runMigrations, with its two
  variables.\<close>

fun runMigrations_loop ::
  "'u modules \<Rightarrow> MigrationFile list \<Rightarrow> nat \<times> int option \<Rightarrow> 'u world \<Rightarrow> (nat \<times> int option, 'u) outcome" where
  "runMigrations_loop modules [] (migrationsExecuted, currentBatch) w =
     (Inr (migrationsExecuted, currentBatch), w)"
| "runMigrations_loop modules (migration # rest) (migrationsExecuted, currentBatch) w =
     (case executeMigration modules migration w of
        (Inl e, w1) \<Rightarrow> (Inl e, w1)
      | (Inr False, w1) \<Rightarrow> runMigrations_loop modules rest (migrationsExecuted, currentBatch) w1
      | (Inr True, w1) \<Rightarrow>
          (case (case currentBatch of None \<Rightarrow> getNextBatchNumber w1 | Some b \<Rightarrow> (Inr b, w1)) of
             (Inl e, w2) \<Rightarrow> (Inl e, w2)
           | (Inr b, w2) \<Rightarrow>
               (case markMigrationExecuted (name migration) (Some b) w2 of
                  (Inl e, w3) \<Rightarrow> (Inl e, w3)
                | (Inr u, w3) \<Rightarrow> runMigrations_loop modules rest (migrationsExecuted + 1, Some b) w3)))"

text \<open>async runMigrations()\<close>

definition runMigrations :: "'u modules \<Rightarrow> 'u world \<Rightarrow> (unit, 'u) outcome" where
  "runMigrations modules w =
     catch_log ''Migration failed:''
       (let tableExists = migrationTableExists w;
            w1 = (if \<not> tableExists then createMigrationsTable w else w)
        in case getMigrationFiles w1 of
             (Inl e, w2) \<Rightarrow> (Inl e, w2)
           | (Inr migrationFiles, w2) \<Rightarrow>
               (case runMigrations_loop modules migrationFiles (0, None) w2 of
                  (Inl e, w3) \<Rightarrow> (Inl e, w3)
                | (Inr (migrationsExecuted, currentBatch), w3) \<Rightarrow>
                    (Inr (),
                     if migrationsExecuted = 0 then log ''Nothing to migrate'' w3
                     else log ''Migrations completed'' w3)))"

subsection \<open>Rollback\<close>

text \<open>private async rollbackSingleMigration(migrationName)\<close>

definition rollbackSingleMigration :: "'u modules \<Rightarrow> string \<Rightarrow> 'u world \<Rightarrow> (unit, 'u) outcome" where
  "rollbackSingleMigration modules migrationName w =
     (let w1 = log (''Rolling back: '' @ migrationName) w
      in case getMigrationFiles w1 of
           (Inl e, w2) \<Rightarrow> (Inl e, w2)
         | (Inr migrationFiles, w2) \<Rightarrow>
             (case find (\<lambda>m. name m = migrationName) migrationFiles of
                None \<Rightarrow> (Inl (Error (''Migration '' @ migrationName @ '' not found'')), w2)
              | Some migration \<Rightarrow>
                  (case load_migration_class modules migration of
                     Inl e \<Rightarrow> (Inl e, w2)
                   | Inr c \<Rightarrow>
                       (case down c (store w2) of
                          (Some e, s) \<Rightarrow>
                            (Inl e, w2\<lparr>store := s, calls := calls w2 @ [Down migrationName (Some e)]\<rparr>)
                        | (None, s) \<Rightarrow>
                            (case removeMigrationRecord migrationName
                                    (w2\<lparr>store := s, calls := calls w2 @ [Down migrationName None]\<rparr>) of
                               (Inl e, w3) \<Rightarrow> (Inl e, w3)
                             | (Inr u, w3) \<Rightarrow> (Inr (), log (''Rolled back: '' @ migrationName) w3))))))"

text \<open>\<open>for (const migrationName of ...) { await this.rollbackSingleMigration(migrationName); }\<close>\<close>

fun rollback_each :: "'u modules \<Rightarrow> string list \<Rightarrow> 'u world \<Rightarrow> (unit, 'u) outcome" where
  "rollback_each modules [] w = (Inr (), w)"
| "rollback_each modules (migrationName # rest) w =
     (case rollbackSingleMigration modules migrationName w of
        (Inl e, w1) \<Rightarrow> (Inl e, w1)
      | (Inr u, w1) \<Rightarrow> rollback_each modules rest w1)"

text \<open>A number in a template string.\<close>

fun show_nat :: "nat \<Rightarrow> string" where
  "show_nat n =
     (if n < 10 then [char_of (48 + n)] else show_nat (n div 10) @ [char_of (48 + n mod 10)])"

declare show_nat.simps [simp del]

definition show_int :: "int \<Rightarrow> string" where
  "show_int k = (if k < 0 then ''-'' @ show_nat (nat (- k)) else show_nat (nat k))"

definition table_missing_text :: string where
  "table_missing_text = ''Migration table does not exist. Nothing to rollback.''"

text \<open>async rollbackAllMigrations()\<close>

definition rollbackAllMigrations :: "'u modules \<Rightarrow> 'u world \<Rightarrow> (unit, 'u) outcome" where
  "rollbackAllMigrations modules w =
     (let w0 = log ''Rolling back all migrations...'' w
      in catch_log ''Rollback all failed:''
           (if \<not> migrationTableExists w0 then (Inr (), log table_missing_text w0)
            else
              (case getExecutedMigrations w0 of
                 Inl e \<Rightarrow> (Inl e, w0)
               | Inr executedMigrations \<Rightarrow>
                   (if length executedMigrations = 0 then (Inr (), log ''No migrations to rollback'' w0)
                    else
                      (case rollback_each modules executedMigrations w0 of
                         (Inl e, w1) \<Rightarrow> (Inl e, w1)
                       | (Inr u, w1) \<Rightarrow> (Inr (), log ''All migrations rolled back'' w1))))))"

text \<open>async rollbackLastBatch()\<close>

definition rollbackLastBatch :: "'u modules \<Rightarrow> 'u world \<Rightarrow> (unit, 'u) outcome" where
  "rollbackLastBatch modules w =
     catch_log ''Last batch rollback failed:''
       (if \<not> migrationTableExists w then (Inr (), log table_missing_text w)
        else
          (case getLastBatch w of
             Inl e \<Rightarrow> (Inl e, w)
           | Inr lastBatch \<Rightarrow>
               (if length lastBatch = 0 then (Inr (), log ''No migrations to rollback'' w)
                else
                  (let w1 = log (''Rolling back last batch ('' @ show_nat (length lastBatch)
                                 @ '' migrations)...'') w
                   in case rollback_each modules lastBatch w1 of
                        (Inl e, w2) \<Rightarrow> (Inl e, w2)
                      | (Inr u, w2) \<Rightarrow> (Inr (), log ''Last batch rollback completed'' w2)))))"

text \<open>The \<open>for (let i = 0; i < steps; i++)\<close> loop of rollbackSteps; \<open>steps\<close> is a whole number
  of any sign.\<close>

function rollbackSteps_loop :: "'u modules \<Rightarrow> int \<Rightarrow> nat \<Rightarrow> 'u world \<Rightarrow> (unit, 'u) outcome" where
  "rollbackSteps_loop modules steps i w =
     (if int i < steps
      then
        (case getLastBatch w of
           Inl e \<Rightarrow> (Inl e, w)
         | Inr lastBatch \<Rightarrow>
             (if length lastBatch = 0
              then (Inr (), log (''No more migrations to rollback (rolled back '' @ show_nat i
                                 @ '' batch(es))'') w)
              else
                (let w1 = log (''Rolling back batch '' @ show_nat (i + 1) @ '' of ''
                               @ show_int steps @ '' ('' @ show_nat (length lastBatch)
                               @ '' migrations)...'') w
                 in case rollback_each modules lastBatch w1 of
                      (Inl e, w2) \<Rightarrow> (Inl e, w2)
                    | (Inr u, w2) \<Rightarrow> rollbackSteps_loop modules steps (i + 1) w2)))
      else (Inr (), w))"
  by pat_completeness auto
termination
  by (relation "measure (\<lambda>(modules, steps, i, w). nat (steps - int i))") simp_all

declare rollbackSteps_loop.simps [simp del]

text \<open>async rollbackSteps(steps)\<close>

definition rollbackSteps :: "'u modules \<Rightarrow> int \<Rightarrow> 'u world \<Rightarrow> (unit, 'u) outcome" where
  "rollbackSteps modules steps w =
     catch_log ''Step rollback failed:''
       (if \<not> migrationTableExists w then (Inr (), log table_missing_text w)
        else
          (let w1 = log (''Rolling back last '' @ show_int steps @ '' batch(es)...'') w
           in case rollbackSteps_loop modules steps 0 w1 of
                (Inl e, w2) \<Rightarrow> (Inl e, w2)
              | (Inr u, w2) \<Rightarrow>
                  (Inr (), log (''Rollback of '' @ show_int steps @ '' batch(es) completed'') w2)))"

text \<open>async rollbackSpecificMigration(migrationName)\<close>

definition rollbackSpecificMigration :: "'u modules \<Rightarrow> string \<Rightarrow> 'u world \<Rightarrow> (unit, 'u) outcome" where
  "rollbackSpecificMigration modules migrationName w =
     catch_log ''Specific rollback failed:''
       (if \<not> migrationTableExists w then (Inr (), log table_missing_text w)
        else
          (case getExecutedMigrations w of
             Inl e \<Rightarrow> (Inl e, w)
           | Inr executedMigrations \<Rightarrow>
               (if migrationName \<notin> set executedMigrations
                then (Inr (), log (''Migration '' @ [CHR 0x27] @ migrationName @ [CHR 0x27]
                                   @ '' was not executed or not found'') w)
                else
                  (case rollbackSingleMigration modules migrationName w of
                     (Inl e, w1) \<Rightarrow> (Inl e, w1)
                   | (Inr u, w1) \<Rightarrow> (Inr (), log ''Migration rollback completed'' w1)))))"

text \<open>async refreshMigrations()\<close>

definition refreshMigrations :: "'u modules \<Rightarrow> 'u world \<Rightarrow> (unit, 'u) outcome" where
  "refreshMigrations modules w =
     (let w0 = log ''Refreshing migrations (rollback all + re-run)...'' w
      in catch_log ''Migration refresh failed:''
           (case rollbackAllMigrations modules w0 of
              (Inl e, w1) \<Rightarrow> (Inl e, w1)
            | (Inr u, w1) \<Rightarrow>
                (case runMigrations modules (log ''Re-running all migrations...'' w1) of
                   (Inl e, w2) \<Rightarrow> (Inl e, w2)
                 | (Inr u, w2) \<Rightarrow> (Inr (), log ''Migration refresh completed'' w2))))"

subsection \<open>Status\<close>

text \<open>\<open>String.prototype.padEnd\<close> with spaces.\<close>

definition padEnd :: "string \<Rightarrow> nat \<Rightarrow> string" where
  "padEnd s n = s @ replicate (n - length s) CHR '' ''"

text \<open>private displayMigrationsTable(migrations). The frame of the table is drawn with
  box characters, written here as dashes and bars; \<open>toLocaleString\<close>, which depends on the
  locale of the process, is a parameter.\<close>

definition displayMigrationsTable ::
  "(nat \<Rightarrow> string) \<Rightarrow> (string \<times> nat) list \<Rightarrow> 'u world \<Rightarrow> 'u world" where
  "displayMigrationsTable toLocaleString ms w =
     w\<lparr>console := console w @
        [Out [], Out ''-----'', Out ''| Migration History |'', Out ''-----'',
         Out ''| Migration Name | Executed At |'', Out ''-----'']
        @ map (\<lambda>(n, t). Out (''| '' @ padEnd n 40 @ ''  | '' @ padEnd (toLocaleString t) 32
                             @ ''        |'')) ms
        @ [Out ''-----'', Out (''Total migrations executed: '' @ show_nat (length ms)), Out []]\<rparr>"

text \<open>async showMigrationStatus()\<close>

definition showMigrationStatus :: "(nat \<Rightarrow> string) \<Rightarrow> 'u world \<Rightarrow> (unit, 'u) outcome" where
  "showMigrationStatus toLocaleString w =
     catch_log ''Status check failed:''
       (if \<not> migrationTableExists w
        then (Inr (), log ''Migration table does not exist. Run npm run migrate:run to create it.'' w)
        else
          (case getExecutedMigrationsWithDetails w of
             Inl e \<Rightarrow> (Inl e, w)
           | Inr executedMigrations \<Rightarrow>
               (if length executedMigrations = 0
                then (Inr (), log ''No migrations executed yet'' w)
                else (Inr (), displayMigrationsTable toLocaleString executedMigrations w))))"

subsection \<open>Notions used in the statements\<close>

text \<open>The refresh of the specification: roll everything back, then run; a failure of the
  rollback is the failure of the whole and the run is not started.\<close>

definition refresh_spec :: "'u modules \<Rightarrow> 'u world \<Rightarrow> (unit, 'u) outcome" where
  "refresh_spec modules w =
     (case rollbackAllMigrations modules w of
        (Inl e, w1) \<Rightarrow> (Inl e, w1)
      | (Inr u, w1) \<Rightarrow> runMigrations modules w1)"

text \<open>The rows of the ledger and the names recorded in it (none while the table is missing).\<close>

definition ledger :: "'u world \<Rightarrow> row list" where
  "ledger w = (case migrations w of None \<Rightarrow> [] | Some t \<Rightarrow> rows t)"

definition recorded :: "'u world \<Rightarrow> string set" where
  "recorded w = set (map migration_name (ledger w))"

text \<open>The operations invoked between two worlds of one invocation.\<close>

definition new_calls :: "'u world \<Rightarrow> 'u world \<Rightarrow> call list" where
  "new_calls w w' = drop (length (calls w)) (calls w')"

fun call_name :: "call \<Rightarrow> string" where
  "call_name (Up n e) = n"
| "call_name (Down n e) = n"

fun is_Up :: "call \<Rightarrow> bool" where
  "is_Up (Up n e) = True"
| "is_Up (Down n e) = False"

text \<open>Two worlds that differ in the console at most.\<close>

definition same_but_console :: "'u world \<Rightarrow> 'u world \<Rightarrow> bool" where
  "same_but_console w w' =
     (migrations w' = migrations w \<and> store w' = store w \<and> dir w' = dir w \<and> now w' = now w
      \<and> calls w' = calls w \<and> batch_queries w' = batch_queries w)"



text \<open>The rows that getLastBatch selects, in its order.\<close>

definition last_batch_rows :: "table \<Rightarrow> row list" where
  "last_batch_rows t =
     order_by_executed_at_desc
       (filter (\<lambda>r. batch r \<noteq> None \<and> batch r = max_batch (rows t)) (rows t))"

text \<open>Newest first.\<close>

definition newest_first :: "row list \<Rightarrow> bool" where
  "newest_first rs = sorted_wrt (\<lambda>a b. executed_at a \<ge> executed_at b) rs"

subsection \<open>A small installation\<close>

text \<open>Three migration files and a file that is none; the store counts the schema changes
  in place. The module of \<open>b\<close> has no default export and a class whose operations throw.\<close>

definition demo_class :: "nat migration_class" where
  "demo_class = \<lparr>up = (\<lambda>s. (None, s + 1)), down = (\<lambda>s. (None, s - 1))\<rparr>"

definition demo_failing_class :: "nat migration_class" where
  "demo_failing_class =
     \<lparr>up = (\<lambda>s. (Some (OperationFailure ''boom''), s)),
      down = (\<lambda>s. (Some (OperationFailure ''boom''), s))\<rparr>"

definition demo_modules :: "nat modules" where
  "demo_modules f = Some \<lparr>default_export = Some demo_class, named_exports = []\<rparr>"

definition demo_modules_b_fails :: "nat modules" where
  "demo_modules_b_fails f =
     (if f = ''20250101T000100_b.ts''
      then Some \<lparr>default_export = None, named_exports = [(''BMigration'', Some demo_failing_class)]\<rparr>
      else Some \<lparr>default_export = Some demo_class, named_exports = []\<rparr>)"

definition demo_world :: "nat world" where
  "demo_world =
     \<lparr>migrations = None, store = 0,
      dir = Some [''20250101T000200_c.ts'', ''20250101T000000_a.ts'', ''README.md'',
                  ''20250101T000100_b.ts''],
      now = 100, console = [], calls = [], batch_queries = 0\<rparr>"

definition demo_world_a_applied :: "nat world" where
  "demo_world_a_applied =
     \<lparr>migrations = Some \<lparr>has_batch = True,
          rows = [\<lparr>migration_name = ''a'', executed_at = 100, batch = Some 1\<rparr>]\<rparr>,
      store = 1,
      dir = Some [''20250101T000200_c.ts'', ''20250101T000000_a.ts'', ''README.md'',
                  ''20250101T000100_b.ts''],
      now = 200, console = [], calls = [], batch_queries = 0\<rparr>"

definition demo_world_all_applied :: "nat world" where
  "demo_world_all_applied =
     \<lparr>migrations = Some \<lparr>has_batch = True,
          rows = [\<lparr>migration_name = ''a'', executed_at = 100, batch = Some 1\<rparr>,
                  \<lparr>migration_name = ''b'', executed_at = 101, batch = Some 1\<rparr>,
                  \<lparr>migration_name = ''c'', executed_at = 102, batch = Some 1\<rparr>]\<rparr>,
      store = 3,
      dir = Some [''20250101T000200_c.ts'', ''20250101T000000_a.ts'', ''README.md'',
                  ''20250101T000100_b.ts''],
      now = 300, console = [], calls = [], batch_queries = 0\<rparr>"

text \<open>A ledger table of an installation that predates the batch column, with one row.\<close>

definition demo_world_legacy :: "nat world" where
  "demo_world_legacy =
     \<lparr>migrations = Some \<lparr>has_batch = False,
          rows = [\<lparr>migration_name = ''a'', executed_at = 100, batch = None\<rparr>]\<rparr>,
      store = 1,
      dir = Some [''20250101T000200_c.ts'', ''20250101T000000_a.ts'', ''README.md'',
                  ''20250101T000100_b.ts''],
      now = 200, console = [], calls = [], batch_queries = 0\<rparr>"


subsection \<open>The file name pattern of the specification\<close>

text \<open>The specification's words for a migration source entry, to compare with
  \<open>match_filename\<close>: the pattern \<open>^\d{8}T\d{6}_[A-Za-z0-9_]+\.(ext)$\<close>, with \<open>ts\<close> and \<open>js\<close>
  for the extension.\<close>

definition is_slug_char :: "char \<Rightarrow> bool" where
  "is_slug_char c =
     (c \<in> set ''ABCDEFGHIJKLMNOPQRSTUVWXYZabcdefghijklmnopqrstuvwxyz0123456789_'')"

definition spec_filename_pattern :: "string \<Rightarrow> bool" where
  "spec_filename_pattern f =
     (let ts = take 15 f;
          body = drop 16 f;
          slug = take (length body - 3) body;
          ext = drop (length body - 3) body
      in length ts = 15 \<and> list_all is_digit (take 8 ts) \<and> take 1 (drop 8 ts) = ''T''
         \<and> list_all is_digit (drop 9 ts) \<and> take 1 (drop 15 f) = ''_''
         \<and> slug \<noteq> [] \<and> list_all is_slug_char slug
         \<and> (ext = ''.ts'' \<or> ext = ''.js''))"

section \<open>Properties\<close>

subsection \<open>Frames of the single operations\<close>

lemma log_fields [simp]:
  "migrations (log t w) = migrations w" "store (log t w) = store w" "dir (log t w) = dir w"
  "now (log t w) = now w" "calls (log t w) = calls w" "console (log t w) = console w @ [Out t]"
  "batch_queries (log t w) = batch_queries w"
  by (simp_all add: log_def)

lemma catch_log_fst [simp]: "fst (catch_log t res) = fst res"
  by (cases res) (auto simp: catch_log_def split: sum.splits)

lemma catch_log_Inr [simp]: "catch_log t res = (Inr v, w') \<longleftrightarrow> res = (Inr v, w')"
  by (cases res) (auto simp: catch_log_def split: sum.splits)

lemma catch_log_Inl: "catch_log t res = (Inl e, w') \<longleftrightarrow> (\<exists>w1. res = (Inl e, w1) \<and> w' = w1\<lparr>console := console w1 @ [Err t e]\<rparr>)"
  by (cases res) (auto simp: catch_log_def split: sum.splits)

lemma recorded_log [simp]: "recorded (log t w) = recorded w" "ledger (log t w) = ledger w"
  by (simp_all add: recorded_def ledger_def)

lemma executeMigration_skip:
  "executeMigration modules m w = (Inr False, w') \<Longrightarrow> w' = w \<and> name m \<in> recorded w"
  by (auto simp: executeMigration_def isMigrationExecuted_def recorded_def ledger_def catch_log_Inl Let_def
      split: sum.splits bool.splits option.splits prod.splits if_splits)

lemma executeMigration_done:
  "executeMigration modules m w = (Inr True, w') \<Longrightarrow>
     migrations w' = migrations w \<and> dir w' = dir w \<and> now w' = now w
     \<and> calls w' = calls w @ [Up (name m) None] \<and> name m \<notin> recorded w \<and> migrations w \<noteq> None
     \<and> batch_queries w' = batch_queries w"
  by (auto simp: executeMigration_def isMigrationExecuted_def recorded_def ledger_def catch_log_Inl Let_def
      split: sum.splits bool.splits option.splits prod.splits if_splits)

lemma executeMigration_fail:
  "executeMigration modules m w = (Inl e, w') \<Longrightarrow>
     migrations w' = migrations w \<and> dir w' = dir w \<and> now w' = now w
     \<and> (calls w' = calls w \<or> calls w' = calls w @ [Up (name m) (Some e)] \<and> name m \<notin> recorded w)
     \<and> batch_queries w' = batch_queries w"
  by (auto simp: executeMigration_def isMigrationExecuted_def recorded_def ledger_def catch_log_Inl Let_def
      split: sum.splits bool.splits option.splits prod.splits if_splits)


lemma markMigrationExecuted_fail:
  "markMigrationExecuted n ba w = (Inl e, w') \<Longrightarrow> w' = w"
  by (auto simp: markMigrationExecuted_def split: option.splits if_splits)

lemma markMigrationExecuted_ok:
  assumes "markMigrationExecuted n ba w = (Inr u, w')"
  shows "\<exists>t t'. migrations w = Some t \<and> migrations w' = Some t' \<and> has_batch t' = has_batch t
           \<and> rows t' = rows t @
                (if n \<in> recorded w then []
                 else [\<lparr>migration_name = n, executed_at = now w,
                        batch = (if ba \<noteq> None \<and> ba \<noteq> Some 0 then ba
                                 else if has_batch t then Some 1 else None)\<rparr>])
           \<and> store w' = store w \<and> dir w' = dir w \<and> calls w' = calls w \<and> console w' = console w
           \<and> (ba \<noteq> None \<and> ba \<noteq> Some 0 \<longrightarrow> has_batch t)
           \<and> batch_queries w' = batch_queries w"
  using assms
  by (auto simp: markMigrationExecuted_def insert_on_conflict_do_nothing_def recorded_def ledger_def
      split: option.splits if_splits)

lemma markMigrationExecuted_recorded:
  assumes "markMigrationExecuted n ba w = (Inr u, w')"
  shows "migrations w' \<noteq> None" "n \<in> recorded w'" "calls w' = calls w"
proof -
  from markMigrationExecuted_ok[OF assms] obtain t t' new_batch where *:
    "migrations w = Some t" "migrations w' = Some t'"
    "rows t' = rows t @ (if n \<in> recorded w then []
        else [\<lparr>migration_name = n, executed_at = now w, batch = new_batch\<rparr>])"
    "calls w' = calls w"
    by blast
  show "migrations w' \<noteq> None" using * by simp
  show "calls w' = calls w" by fact
  show "n \<in> recorded w'"
    using *(1,2,3) by (cases "n \<in> recorded w") (auto simp: recorded_def ledger_def)
qed




text \<open>The ways through one round of the loop.\<close>

lemma runMigrations_loop_Cons_cases:
  assumes "runMigrations_loop modules (m # rest) (k, cb) w = (r, w')"
  obtains
    (fail) e where "executeMigration modules m w = (Inl e, w')" "r = Inl e"
  | (skip) "executeMigration modules m w = (Inr False, w)"
      "runMigrations_loop modules rest (k, cb) w = (r, w')"
  | (batch_fail) e where
      "migrations w' = migrations w \<and> dir w' = dir w \<and> now w' = now w
       \<and> calls w' = calls w @ [Up (name m) None] \<and> name m \<notin> recorded w \<and> migrations w \<noteq> None"
      "cb = None" "next_batch_statement w' = Inl e" "r = Inl e"
      "batch_queries w' = Suc (batch_queries w)"
  | (mark_fail) b e where
      "migrations w' = migrations w \<and> dir w' = dir w \<and> now w' = now w
       \<and> calls w' = calls w @ [Up (name m) None] \<and> name m \<notin> recorded w \<and> migrations w \<noteq> None"
      "(case cb of None \<Rightarrow> next_batch_statement w' | Some b \<Rightarrow> Inr b) = Inr b"
      "markMigrationExecuted (name m) (Some b) w' = (Inl e, w')" "r = Inl e"
      "batch_queries w' = batch_queries w + (if cb = None then 1 else 0)"
  | (step) w2 b w3 where
      "migrations w2 = migrations w \<and> dir w2 = dir w \<and> now w2 = now w
       \<and> calls w2 = calls w @ [Up (name m) None] \<and> name m \<notin> recorded w \<and> migrations w \<noteq> None"
      "(case cb of None \<Rightarrow> next_batch_statement w2 | Some b \<Rightarrow> Inr b) = Inr b"
      "markMigrationExecuted (name m) (Some b) w2 = (Inr (), w3)"
      "runMigrations_loop modules rest (k + 1, Some b) w3 = (r, w')"
      "batch_queries w2 = batch_queries w + (if cb = None then 1 else 0)"
proof -
  obtain r1 w1 where ex: "executeMigration modules m w = (r1, w1)"
    by (cases "executeMigration modules m w")
  show thesis
  proof (cases r1)
    case (Inl e)
    with assms ex show thesis by (intro fail[of e]) auto
  next
    case (Inr ran)
    show thesis
    proof (cases ran)
      case False
      with Inr ex have "w1 = w" by (auto dest: executeMigration_skip)
      with assms ex Inr False show thesis by (intro skip) auto
    next
      case True
      from ex Inr True have ex': "executeMigration modules m w = (Inr True, w1)" by simp
      note d = executeMigration_done[OF ex']
      define w2 where "w2 = (if cb = None then w1\<lparr>batch_queries := Suc (batch_queries w1)\<rparr> else w1)"
      let ?rb = "case cb of None \<Rightarrow> next_batch_statement w1 | Some b \<Rightarrow> Inr b"
      have ask: "(case cb of None \<Rightarrow> getNextBatchNumber w1 | Some b \<Rightarrow> (Inr b, w1)) = (?rb, w2)"
        by (simp add: getNextBatchNumber_def w2_def split: option.splits)
      have d2: "migrations w2 = migrations w \<and> dir w2 = dir w \<and> now w2 = now w
         \<and> calls w2 = calls w @ [Up (name m) None] \<and> name m \<notin> recorded w \<and> migrations w \<noteq> None"
        using d by (simp add: w2_def)
      have bq: "batch_queries w2 = batch_queries w + (if cb = None then 1 else 0)"
        using d by (simp add: w2_def)
      have st: "next_batch_statement w2 = next_batch_statement w1"
        by (simp add: next_batch_statement_def w2_def)
      show thesis
      proof (cases ?rb)
        case (Inl e)
        then have none: "cb = None" by (cases cb) simp_all
        from assms ex' ask Inl have "r = Inl e" "w' = w2" by simp_all
        with Inl none d2 bq st show thesis by (intro batch_fail[of e]) simp_all
      next
        case nb: (Inr b)
        then have nb2: "(case cb of None \<Rightarrow> next_batch_statement w2 | Some b \<Rightarrow> Inr b) = Inr b"
          using st by (simp split: option.splits)
        obtain r2 w3 where mk: "markMigrationExecuted (name m) (Some b) w2 = (r2, w3)"
          by (cases "markMigrationExecuted (name m) (Some b) w2")
        show thesis
        proof (cases r2)
          case (Inl e)
          with mk have same: "w3 = w2" by (auto dest: markMigrationExecuted_fail)
          from assms ex' ask nb mk Inl have r: "r = Inl e" and "w' = w3" by simp_all
          with same have w': "w2 = w'" by simp
          from mk Inl same have "markMigrationExecuted (name m) (Some b) w2 = (Inl e, w2)" by simp
          then show thesis
            using d2 nb2 bq r unfolding w' by (intro mark_fail[of b e])
        next
          case (Inr u)
          from assms ex' ask nb mk Inr
          have "runMigrations_loop modules rest (k + 1, Some b) w3 = (r, w')" by simp
          with mk Inr show thesis
            using d2 nb2 bq by (intro step[of w2 b w3]) simp_all
        qed
      qed
    qed
  qed
qed

text \<open>The loop only appends rows to the ledger table and leaves the directory alone.\<close>

lemma runMigrations_loop_grows:
  "runMigrations_loop modules files st w = (r, w') \<Longrightarrow> migrations w = Some t \<Longrightarrow>
     \<exists>t' added. migrations w' = Some t' \<and> has_batch t' = has_batch t
        \<and> rows t' = rows t @ added \<and> dir w' = dir w"
proof (induction files arbitrary: st w t)
  case Nil
  then show ?case by (cases st) auto
next
  case (Cons m rest)
  obtain k cb where st: "st = (k, cb)" by (cases st)
  from Cons.prems(1)[unfolded st] show ?case
  proof (cases rule: runMigrations_loop_Cons_cases)
    case (fail e)
    then show ?thesis using Cons.prems(2) by (auto dest: executeMigration_fail)
  next
    case skip
    from Cons.IH[OF skip(2) Cons.prems(2)] show ?thesis .
  next
    case (batch_fail e)
    then show ?thesis using Cons.prems(2) by (auto dest: executeMigration_done)
  next
    case (mark_fail b e)
    then show ?thesis using Cons.prems(2) by (auto dest: executeMigration_done)
  next
    case (step w1 b w2)
    from step(1) Cons.prems(2) have same: "migrations w1 = Some t" "dir w1 = dir w"
      by (auto dest: executeMigration_done)
    from markMigrationExecuted_ok[OF step(3)] same
    obtain t2 row1 where w2: "migrations w2 = Some t2" "has_batch t2 = has_batch t"
      "rows t2 = rows t @ row1" "dir w2 = dir w"
      by auto
    from Cons.IH[OF step(4) w2(1)] w2 show ?thesis by auto
  qed
qed


lemma recorded_console [simp]:
  "recorded (w\<lparr>console := c\<rparr>) = recorded w" "ledger (w\<lparr>console := c\<rparr>) = ledger w"
  by (simp_all add: recorded_def ledger_def)

lemma recorded_eq: "migrations w' = migrations w \<Longrightarrow> recorded w' = recorded w"
  by (simp add: recorded_def ledger_def)

lemma ledger_Some: "migrations w = Some t \<Longrightarrow> ledger w = rows t"
  by (simp add: ledger_def)

lemma runMigrations_loop_recorded_mono:
  assumes "runMigrations_loop modules files st w = (r, w')" "migrations w \<noteq> None"
  shows "recorded w \<subseteq> recorded w'"
proof -
  from assms(2) obtain t where t: "migrations w = Some t" by auto
  from runMigrations_loop_grows[OF assms(1) t] t show ?thesis
    by (auto simp: recorded_def ledger_def)
qed

lemma runMigrations_loop_table:
  assumes "runMigrations_loop modules files st w = (r, w')" "migrations w \<noteq> None"
  shows "migrations w' \<noteq> None"
  using runMigrations_loop_grows[OF assms(1)] assms(2) by fastforce

text \<open>After a loop that came to its end, every file it went through is recorded.\<close>

lemma runMigrations_loop_all_recorded:
  "runMigrations_loop modules files st w = (Inr st', w') \<Longrightarrow> migrations w \<noteq> None \<Longrightarrow>
     name ` set files \<subseteq> recorded w'"
proof (induction files arbitrary: st w)
  case Nil
  then show ?case by simp
next
  case (Cons m rest)
  obtain k cb where st: "st = (k, cb)" by (cases st)
  from Cons.prems(1)[unfolded st] show ?case
  proof (cases rule: runMigrations_loop_Cons_cases)
    case skip
    from skip(1) have "name m \<in> recorded w" by (auto dest: executeMigration_skip)
    moreover have "recorded w \<subseteq> recorded w'"
      using runMigrations_loop_recorded_mono[OF skip(2) Cons.prems(2)] .
    moreover have "name ` set rest \<subseteq> recorded w'"
      using Cons.IH[OF skip(2) Cons.prems(2)] .
    ultimately show ?thesis by auto
  next
    case (step w1 b w2)
    note w2 = markMigrationExecuted_recorded[OF step(3)]
    have "recorded w2 \<subseteq> recorded w'"
      using runMigrations_loop_recorded_mono[OF step(4) w2(1)] .
    moreover have "name ` set rest \<subseteq> recorded w'"
      using Cons.IH[OF step(4) w2(1)] .
    ultimately show ?thesis using w2(2) by auto
  qed simp_all
qed

lemma executeMigration_recorded:
  "name m \<in> recorded w \<Longrightarrow> executeMigration modules m w = (Inr False, w)"
  by (cases "migrations w")
     (auto simp: executeMigration_def isMigrationExecuted_def recorded_def ledger_def)

text \<open>A loop over files that are all recorded does nothing.\<close>

lemma runMigrations_loop_noop:
  "name ` set files \<subseteq> recorded w \<Longrightarrow> runMigrations_loop modules files st w = (Inr st, w)"
proof (induction files)
  case Nil
  show ?case by (cases st) simp
next
  case (Cons m rest)
  then show ?case by (cases st) (simp add: executeMigration_recorded)
qed

text \<open>The calls of the loop: forward operations that returned, and then at most one that
  threw; in that case its error is the loop's, its migration is not recorded and the
  migrations before it are.\<close>

lemma runMigrations_loop_calls:
  "runMigrations_loop modules files st w = (r, w') \<Longrightarrow> migrations w \<noteq> None \<Longrightarrow>
     \<exists>ns. calls w' = calls w @ map (\<lambda>n. Up n None) ns
        \<or> (\<exists>m e. calls w' = calls w @ map (\<lambda>n. Up n None) ns @ [Up m (Some e)]
              \<and> r = Inl e \<and> m \<notin> recorded w' \<and> set ns \<subseteq> recorded w')"
proof (induction files arbitrary: st w)
  case Nil
  then show ?case by (cases st) (auto intro: exI[of _ "[]"])
next
  case (Cons m rest)
  obtain k cb where st: "st = (k, cb)" by (cases st)
  from Cons.prems(1)[unfolded st] show ?case
  proof (cases rule: runMigrations_loop_Cons_cases)
    case (fail e)
    from executeMigration_fail[OF fail(1)]
    have same: "migrations w' = migrations w"
      and c: "calls w' = calls w \<or> calls w' = calls w @ [Up (name m) (Some e)] \<and> name m \<notin> recorded w"
      by auto
    have "recorded w' = recorded w" using same by (rule recorded_eq)
    with c fail(2)
    have "calls w' = calls w @ map (\<lambda>n. Up n None) []
        \<or> calls w' = calls w @ map (\<lambda>n. Up n None) [] @ [Up (name m) (Some e)]
           \<and> r = Inl e \<and> name m \<notin> recorded w' \<and> set [] \<subseteq> recorded w'"
      by auto
    then show ?thesis by blast
  next
    case skip
    from Cons.IH[OF skip(2) Cons.prems(2)] show ?thesis .
  next
    case (batch_fail e)
    from batch_fail(1)
    have "calls w' = calls w @ map (\<lambda>n. Up n None) [name m]" by simp
    then show ?thesis by blast
  next
    case (mark_fail b e)
    from mark_fail(1)
    have "calls w' = calls w @ map (\<lambda>n. Up n None) [name m]" by simp
    then show ?thesis by blast
  next
    case (step w1 b w2)
    from step(1)
    have c1: "calls w1 = calls w @ [Up (name m) None]" by simp
    note w2 = markMigrationExecuted_recorded[OF step(3)]
    have mono: "recorded w2 \<subseteq> recorded w'"
      using runMigrations_loop_recorded_mono[OF step(4) w2(1)] .
    from Cons.IH[OF step(4) w2(1)] obtain ns where
      ns: "calls w' = calls w2 @ map (\<lambda>n. Up n None) ns
        \<or> (\<exists>m e. calls w' = calls w2 @ map (\<lambda>n. Up n None) ns @ [Up m (Some e)]
              \<and> r = Inl e \<and> m \<notin> recorded w' \<and> set ns \<subseteq> recorded w')" by blast
    have "calls w' = calls w @ map (\<lambda>n. Up n None) (name m # ns)
        \<or> (\<exists>m' e. calls w' = calls w @ map (\<lambda>n. Up n None) (name m # ns) @ [Up m' (Some e)]
              \<and> r = Inl e \<and> m' \<notin> recorded w' \<and> set (name m # ns) \<subseteq> recorded w')"
      using ns c1 w2(2,3) mono by auto
    then show ?thesis by blast
  qed
qed







subsection \<open>runMigrations as a whole\<close>

lemma createMigrationsTable_fresh:
  "migrations w = None \<Longrightarrow>
     createMigrationsTable w =
       log ''Migration table created/updated successfully''
         (w\<lparr>migrations := Some \<lparr>has_batch = True, rows = []\<rparr>\<rparr>)"
  by (simp add: createMigrationsTable_def checkColumnExists_def columns_def Let_def)

lemma getMigrationFiles_frame:
  assumes "getMigrationFiles w = (r, w')"
  shows "migrations w' = migrations w" "store w' = store w" "now w' = now w"
    "calls w' = calls w" "console w' = console w" "dir w' \<noteq> None" "dir w \<noteq> None \<Longrightarrow> w' = w"
    "batch_queries w' = batch_queries w"
  using assms by (auto simp: getMigrationFiles_def split: option.splits)

lemma getMigrationFiles_dir:
  "dir v = dir w \<Longrightarrow> dir w \<noteq> None \<Longrightarrow> getMigrationFiles w = (r, w') \<Longrightarrow>
     getMigrationFiles v = (r, v)"
  by (auto simp: getMigrationFiles_def split: option.splits)

lemma runMigrations_cases:
  assumes "runMigrations modules w = (r, w')"
  obtains
    (discovery_fail) e wd where
      "getMigrationFiles (if migrations w = None then createMigrationsTable w else w) = (Inl e, wd)"
      "r = Inl e" "w' = wd\<lparr>console := console wd @ [Err ''Migration failed:'' e]\<rparr>"
  | (loop_fail) files wd e wl where
      "getMigrationFiles (if migrations w = None then createMigrationsTable w else w) = (Inr files, wd)"
      "runMigrations_loop modules files (0, None) wd = (Inl e, wl)"
      "r = Inl e" "w' = wl\<lparr>console := console wl @ [Err ''Migration failed:'' e]\<rparr>"
  | (finished) files wd k cb wl where
      "getMigrationFiles (if migrations w = None then createMigrationsTable w else w) = (Inr files, wd)"
      "runMigrations_loop modules files (0, None) wd = (Inr (k, cb), wl)"
      "r = Inr ()"
      "w' = log (if k = 0 then ''Nothing to migrate'' else ''Migrations completed'') wl"
proof -
  let ?w0 = "if migrations w = None then createMigrationsTable w else w"
  obtain rf wd where gf: "getMigrationFiles ?w0 = (rf, wd)" by (cases "getMigrationFiles ?w0")
  show thesis
  proof (cases rf)
    case (Inl e)
    with assms gf show thesis
      by (intro discovery_fail[of e wd])
         (auto simp: runMigrations_def migrationTableExists_def catch_log_def Let_def)
  next
    case (Inr files)
    obtain rl wl where lp: "runMigrations_loop modules files (0, None) wd = (rl, wl)"
      by (cases "runMigrations_loop modules files (0, None) wd")
    show thesis
    proof (cases rl)
      case (Inl e)
      with assms gf Inr lp show thesis
        by (intro loop_fail[of files wd e wl])
           (auto simp: runMigrations_def migrationTableExists_def catch_log_def Let_def)
    next
      case r: (Inr st)
      obtain k cb where st: "st = (k, cb)" by (cases st)
      with assms gf Inr lp r show thesis
        by (intro finished[of files wd k cb wl])
           (auto simp: runMigrations_def migrationTableExists_def catch_log_def Let_def)
    qed
  qed
qed

lemma runMigrations_prepare:
  assumes "getMigrationFiles (if migrations w = None then createMigrationsTable w else w) = (rf, wd)"
  shows "migrations wd \<noteq> None" "calls wd = calls w" "ledger wd = ledger w" "store wd = store w"
    "dir wd \<noteq> None" "now wd = now w"
    "migrations w \<noteq> None \<Longrightarrow> migrations wd = migrations w"
    "migrations w = None \<Longrightarrow> migrations wd = Some \<lparr>has_batch = True, rows = []\<rparr>"
    "batch_queries wd = batch_queries w"
  using getMigrationFiles_frame[OF assms]
  by (auto simp: createMigrationsTable_fresh ledger_def split: if_splits)

lemma new_calls_append: "calls w' = calls w @ evs \<Longrightarrow> new_calls w w' = evs"
  by (simp add: new_calls_def)

lemma new_calls_console [simp]: "new_calls w (w'\<lparr>console := c\<rparr>) = new_calls w w'"
  "new_calls w (log t w') = new_calls w w'"
  by (simp_all add: new_calls_def)

subsection \<open>Evaluation of the small installation\<close>

lemmas engine_defs =
  runMigrations_def migrationTableExists_def createMigrationsTable_def checkColumnExists_def
  columns_def log_def catch_log_def getMigrationFiles_def sort_strings_def endsWith_def
  match_filename_def is_digit_def is_line_terminator_def executeMigration_def
  isMigrationExecuted_def load_migration_class_def getNextBatchNumber_def
  next_batch_statement_def
  markMigrationExecuted_def insert_on_conflict_do_nothing_def
  rollbackSingleMigration_def removeMigrationRecord_def getExecutedMigrations_def
  getLastBatch_def order_by_executed_at_desc_def rollbackAllMigrations_def
  rollbackLastBatch_def rollbackSpecificMigration_def refreshMigrations_def
  relation_missing_def column_missing_def integer_out_of_range_def table_missing_text_def

lemmas demo_defs = demo_world_def demo_modules_def demo_modules_b_fails_def demo_class_def
  demo_failing_class_def

lemma demo_failing_run:
  "runMigrations demo_modules_b_fails demo_world =
     (Inl (OperationFailure ''boom''),
      \<lparr>migrations = Some \<lparr>has_batch = True,
           rows = [\<lparr>migration_name = ''a'', executed_at = 100, batch = Some 1\<rparr>]\<rparr>,
       store = 1,
       dir = Some [''20250101T000200_c.ts'', ''20250101T000000_a.ts'', ''README.md'',
                   ''20250101T000100_b.ts''],
       now = 101,
       console =
         [Out ''Migration table created/updated successfully'',
          Out ''Migrating: a'', Out ''Migrated: a'', Out ''Migrating: b'',
          Err ''Migration b failed:'' (OperationFailure ''boom''),
          Err ''Migration failed:'' (OperationFailure ''boom'')],
       calls = [Up ''a'' None, Up ''b'' (Some (OperationFailure ''boom''))],
       batch_queries = 1\<rparr>)"
  by (simp add: engine_defs demo_defs)

subsection \<open>Claim C1: a failing forward operation\<close>

text \<open>
  Claim C1. If, in one invocation of runMigrations, the forward operation of a migration
  \<open>m\<close> throws \<open>e\<close>, then the invocation throws \<open>e\<close>, that call is the last operation the
  invocation made (no later migration is started), every operation before it is a forward
  operation that returned and whose migration is recorded in the ledger afterwards, and
  \<open>m\<close> is not recorded.
\<close>

theorem runMigrations_forward_failure:
  assumes "runMigrations modules w = (r, w')"
    and "Up m (Some e) \<in> set (new_calls w w')"
  shows "r = Inl e \<and> m \<notin> recorded w'
     \<and> (\<exists>ns. new_calls w w' = map (\<lambda>n. Up n None) ns @ [Up m (Some e)] \<and> set ns \<subseteq> recorded w')"
proof -
  have main: ?thesis
    if lp: "runMigrations_loop modules files (0, None) wd = (rl, wl)"
      and gf: "getMigrationFiles (if migrations w = None then createMigrationsTable w else w) = (Inr files, wd)"
      and w': "new_calls w w' = new_calls w wl" "recorded w' = recorded wl"
      and r: "rl = Inl e \<Longrightarrow> r = Inl e"
    for files wd rl wl
  proof -
    note prep = runMigrations_prepare[OF gf]
    from runMigrations_loop_calls[OF lp prep(1)] prep(2) obtain ns where
      ns: "calls wl = calls w @ map (\<lambda>n. Up n None) ns
        \<or> (\<exists>m e. calls wl = calls w @ map (\<lambda>n. Up n None) ns @ [Up m (Some e)]
              \<and> rl = Inl e \<and> m \<notin> recorded wl \<and> set ns \<subseteq> recorded wl)" by auto
    then show ?thesis
    proof
      assume "calls wl = calls w @ map (\<lambda>n. Up n None) ns"
      then have "new_calls w w' = map (\<lambda>n. Up n None) ns" using w'(1) by (simp add: new_calls_append)
      with assms(2) show ?thesis by auto
    next
      assume "\<exists>m e. calls wl = calls w @ map (\<lambda>n. Up n None) ns @ [Up m (Some e)]
              \<and> rl = Inl e \<and> m \<notin> recorded wl \<and> set ns \<subseteq> recorded wl"
      then obtain m' e' where *: "calls wl = calls w @ map (\<lambda>n. Up n None) ns @ [Up m' (Some e')]"
        "rl = Inl e'" "m' \<notin> recorded wl" "set ns \<subseteq> recorded wl" by blast
      from *(1) have nc: "new_calls w w' = map (\<lambda>n. Up n None) ns @ [Up m' (Some e')]"
        using w'(1) by (simp add: new_calls_append)
      with assms(2) have "m = m'" "e = e'" by auto
      with * nc w'(2) r show ?thesis by auto
    qed
  qed
  from assms(1) show ?thesis
  proof (cases rule: runMigrations_cases)
    case (discovery_fail e wd)
    from runMigrations_prepare(2)[OF discovery_fail(1)] discovery_fail(3)
    have "new_calls w w' = []" by (simp add: new_calls_def)
    with assms(2) show ?thesis by simp
  next
    case (loop_fail files wd e' wl)
    show ?thesis
      by (rule main[OF loop_fail(2) loop_fail(1)]) (use loop_fail(3,4) in simp_all)
  next
    case (finished files wd k cb wl)
    show ?thesis
      by (rule main[OF finished(2) finished(1)]) (use finished(3,4) in simp_all)
  qed
qed

theorem runMigrations_forward_failure_witness:
  "Up ''b'' (Some (OperationFailure ''boom''))
      \<in> set (new_calls demo_world (snd (runMigrations demo_modules_b_fails demo_world)))
   \<and> fst (runMigrations demo_modules_b_fails demo_world) = Inl (OperationFailure ''boom'')
   \<and> ''b'' \<notin> recorded (snd (runMigrations demo_modules_b_fails demo_world))
   \<and> (\<exists>ns. new_calls demo_world (snd (runMigrations demo_modules_b_fails demo_world))
            = map (\<lambda>n. Up n None) ns @ [Up ''b'' (Some (OperationFailure ''boom''))]
          \<and> set ns \<subseteq> recorded (snd (runMigrations demo_modules_b_fails demo_world)))"
proof -
  have hyp: "Up ''b'' (Some (OperationFailure ''boom''))
      \<in> set (new_calls demo_world (snd (runMigrations demo_modules_b_fails demo_world)))"
    by (simp add: demo_failing_run new_calls_def) (simp add: demo_world_def)
  from runMigrations_forward_failure[OF surjective_pairing hyp] hyp show ?thesis by simp
qed

subsection \<open>Claim C2: one batch number for one invocation\<close>











subsection \<open>Claim C3: a second run does nothing\<close>

lemma getMigrationFiles_again:
  "getMigrationFiles w = (r, w') \<Longrightarrow> getMigrationFiles w' = (r, w')"
  by (auto simp: getMigrationFiles_def sort_strings_def split: option.splits)

text \<open>
  Claim C3. After an invocation of runMigrations that returned, a second invocation on the
  world the first one left (the same directory, whatever the modules) returns, invokes no
  operation, leaves the ledger and everything else but the console as it is, and logs
  \<open>Nothing to migrate\<close>.
\<close>

theorem runMigrations_idempotent:
  assumes "runMigrations modules w = (Inr (), w1)"
  shows "runMigrations modules' w1 = (Inr (), log ''Nothing to migrate'' w1)
     \<and> new_calls w1 (log ''Nothing to migrate'' w1) = []
     \<and> ledger (log ''Nothing to migrate'' w1) = ledger w1"
proof -
  from assms obtain files wd k cb wl where
    gf: "getMigrationFiles (if migrations w = None then createMigrationsTable w else w) = (Inr files, wd)"
    and lp: "runMigrations_loop modules files (0, None) wd = (Inr (k, cb), wl)"
    and w1: "w1 = log (if k = 0 then ''Nothing to migrate'' else ''Migrations completed'') wl"
    by (cases rule: runMigrations_cases) auto
  note prep = runMigrations_prepare[OF gf]
  have tbl: "migrations w1 \<noteq> None"
    using runMigrations_loop_table[OF lp prep(1)] w1 by simp
  have "name ` set files \<subseteq> recorded wl"
    using runMigrations_loop_all_recorded[OF lp prep(1)] .
  then have rec: "name ` set files \<subseteq> recorded w1" using w1 by simp
  obtain t where "migrations wd = Some t" using prep(1) by auto
  from runMigrations_loop_grows[OF lp this] have "dir wl = dir wd" by auto
  then have "dir w1 = dir wd" using w1 by simp
  from getMigrationFiles_dir[OF this prep(5) getMigrationFiles_again[OF gf]]
  have gf1: "getMigrationFiles w1 = (Inr files, w1)" .
  have "runMigrations_loop modules' files (0, None) w1 = (Inr (0, None), w1)"
    using rec by (rule runMigrations_loop_noop)
  with gf1 tbl have "runMigrations modules' w1 = (Inr (), log ''Nothing to migrate'' w1)"
    by (simp add: runMigrations_def migrationTableExists_def catch_log_def)
  then show ?thesis by (simp add: new_calls_def)
qed

lemma demo_first_run:
  "runMigrations demo_modules demo_world =
     (Inr (),
      \<lparr>migrations = Some \<lparr>has_batch = True,
           rows = [\<lparr>migration_name = ''a'', executed_at = 100, batch = Some 1\<rparr>,
                   \<lparr>migration_name = ''b'', executed_at = 101, batch = Some 1\<rparr>,
                   \<lparr>migration_name = ''c'', executed_at = 102, batch = Some 1\<rparr>]\<rparr>,
       store = 3,
       dir = Some [''20250101T000200_c.ts'', ''20250101T000000_a.ts'', ''README.md'',
                   ''20250101T000100_b.ts''],
       now = 103,
       console =
         [Out ''Migration table created/updated successfully'',
          Out ''Migrating: a'', Out ''Migrated: a'', Out ''Migrating: b'',
          Out ''Migrated: b'', Out ''Migrating: c'', Out ''Migrated: c'',
          Out ''Migrations completed''],
       calls = [Up ''a'' None, Up ''b'' None, Up ''c'' None], batch_queries = 1\<rparr>)"
  by (simp add: engine_defs demo_defs)

theorem runMigrations_idempotent_witness:
  "fst (runMigrations demo_modules demo_world) = Inr ()
   \<and> runMigrations demo_modules (snd (runMigrations demo_modules demo_world))
       = (Inr (), log ''Nothing to migrate'' (snd (runMigrations demo_modules demo_world)))
   \<and> calls (snd (runMigrations demo_modules (snd (runMigrations demo_modules demo_world))))
       = [Up ''a'' None, Up ''b'' None, Up ''c'' None]"
proof -
  have first: "runMigrations demo_modules demo_world
      = (Inr (), snd (runMigrations demo_modules demo_world))"
    by (simp add: demo_first_run)
  from runMigrations_idempotent[OF first, of demo_modules]
  have second: "runMigrations demo_modules (snd (runMigrations demo_modules demo_world))
       = (Inr (), log ''Nothing to migrate'' (snd (runMigrations demo_modules demo_world)))"
    by simp
  show ?thesis
    using first second by (simp add: demo_first_run)
qed

subsection \<open>Rolling back one migration: claims C8 and C7\<close>

lemma removeMigrationRecord_effect:
  "removeMigrationRecord n w = (r, w') \<Longrightarrow>
     store w' = store w \<and> dir w' = dir w \<and> now w' = now w \<and> calls w' = calls w
     \<and> console w' = console w
     \<and> (case migrations w of
           None \<Rightarrow> r = Inl relation_missing \<and> migrations w' = None
         | Some t \<Rightarrow> r = Inr ()
             \<and> migrations w' = Some (t\<lparr>rows := filter (\<lambda>r. migration_name r \<noteq> n) (rows t)\<rparr>))"
  by (auto simp: removeMigrationRecord_def split: option.splits)

text \<open>The ways through rollbackSingleMigration.\<close>

lemma rollbackSingleMigration_cases:
  assumes "rollbackSingleMigration modules n w = (r, w')"
  obtains
    (discovery_fail) e where "fst (getMigrationFiles w) = Inl e" "r = Inl e"
      "calls w' = calls w" "migrations w' = migrations w" "store w' = store w"
  | (not_found) files where "fst (getMigrationFiles w) = Inr files"
      "find (\<lambda>m. name m = n) files = None"
      "r = Inl (Error (''Migration '' @ n @ '' not found''))"
      "calls w' = calls w" "migrations w' = migrations w" "store w' = store w"
  | (load_fail) files m e where "fst (getMigrationFiles w) = Inr files"
      "find (\<lambda>m. name m = n) files = Some m" "load_migration_class modules m = Inl e"
      "r = Inl e" "calls w' = calls w" "migrations w' = migrations w" "store w' = store w"
  | (down_fail) files m c e where "fst (getMigrationFiles w) = Inr files"
      "find (\<lambda>m. name m = n) files = Some m" "load_migration_class modules m = Inr c"
      "fst (down c (store w)) = Some e"
      "r = Inl e" "calls w' = calls w @ [Down n (Some e)]" "migrations w' = migrations w"
  | (remove_fail) files m c where "fst (getMigrationFiles w) = Inr files"
      "find (\<lambda>m. name m = n) files = Some m" "load_migration_class modules m = Inr c"
      "fst (down c (store w)) = None"
      "r = Inl relation_missing" "calls w' = calls w @ [Down n None]"
      "migrations w = None" "migrations w' = None"
  | (rolled_back) files m c t where "fst (getMigrationFiles w) = Inr files"
      "find (\<lambda>m. name m = n) files = Some m" "load_migration_class modules m = Inr c"
      "fst (down c (store w)) = None"
      "r = Inr ()" "calls w' = calls w @ [Down n None]" "migrations w = Some t"
      "migrations w' = Some (t\<lparr>rows := filter (\<lambda>r. migration_name r \<noteq> n) (rows t)\<rparr>)"
proof -
  let ?w1 = "log (''Rolling back: '' @ n) w"
  obtain rf wd where gf: "getMigrationFiles ?w1 = (rf, wd)" by (cases "getMigrationFiles ?w1")
  have fst_gf: "fst (getMigrationFiles w) = rf"
    using gf by (auto simp: getMigrationFiles_def split: option.splits)
  note fr = getMigrationFiles_frame[OF gf]
  show thesis
  proof (cases rf)
    case (Inl e)
    with assms gf fr fst_gf show thesis
      by (intro discovery_fail[of e]) (auto simp: rollbackSingleMigration_def Let_def)
  next
    case (Inr files)
    show thesis
    proof (cases "find (\<lambda>m. name m = n) files")
      case None
      with assms gf fr fst_gf Inr show thesis
        by (intro not_found[of files]) (auto simp: rollbackSingleMigration_def Let_def)
    next
      case (Some m)
      show thesis
      proof (cases "load_migration_class modules m")
        case (Inl e)
        with assms gf fr fst_gf Inr Some show thesis
          by (intro load_fail[of files m e]) (auto simp: rollbackSingleMigration_def Let_def)
      next
        case c: (Inr c)
        obtain de s where dn: "down c (store wd) = (de, s)" by (cases "down c (store wd)")
        have st: "store wd = store w" using fr by simp
        show thesis
        proof (cases de)
          case (Some e)
          with assms gf fr fst_gf Inr \<open>find _ files = Some m\<close> c dn st show thesis
            by (intro down_fail[of files m c e]) (auto simp: rollbackSingleMigration_def Let_def)
        next
          case None
          let ?w2 = "wd\<lparr>store := s, calls := calls wd @ [Down n None]\<rparr>"
          obtain rr w3 where rm: "removeMigrationRecord n ?w2 = (rr, w3)"
            by (cases "removeMigrationRecord n ?w2")
          note eff = removeMigrationRecord_effect[OF rm]
          show thesis
          proof (cases "migrations w")
            case no: None
            with assms gf fr fst_gf Inr \<open>find _ files = Some m\<close> c dn st None rm eff show thesis
              by (intro remove_fail[of files m c]) (auto simp: rollbackSingleMigration_def Let_def)
          next
            case (Some t)
            with assms gf fr fst_gf Inr \<open>find _ files = Some m\<close> c dn st None rm eff show thesis
              by (intro rolled_back[of files m c t]) (auto simp: rollbackSingleMigration_def Let_def)
          qed
        qed
      qed
    qed
  qed
qed


lemma recorded_None: "migrations w = None \<Longrightarrow> recorded w = {}"
  by (simp add: recorded_def ledger_def)

lemma getExecutedMigrations_set:
  "getExecutedMigrations w = Inr ns \<Longrightarrow> set ns = recorded w"
  by (auto simp: getExecutedMigrations_def order_by_executed_at_desc_def recorded_def ledger_def
      split: option.splits)

text \<open>
  Claim C8. For a recorded migration, rollbackSingleMigration leaves the ledger as it was
  whenever it throws, in particular when the backward operation throws, whose error is
  then the one thrown; the ledger changes only when the backward operation has returned,
  and then it loses exactly the rows of that name. Once the backward operation has
  returned the method does return, and the name is recorded no more. When discovery finds
  the file of the migration and its class loads, the backward operation is invoked once
  and decides between the two: if it returns, the method returns and the rows of that name
  are removed; if it throws, the method throws its error and the ledger is as it was.
\<close>

theorem rollbackSingleMigration_record:
  assumes "rollbackSingleMigration modules n w = (r, w')" and "n \<in> recorded w"
  shows "(\<forall>e. Down n (Some e) \<in> set (new_calls w w') \<longrightarrow>
            r = Inl e \<and> ledger w' = ledger w \<and> n \<in> recorded w')
       \<and> (\<forall>e. r = Inl e \<longrightarrow> ledger w' = ledger w)
       \<and> (ledger w' \<noteq> ledger w \<longrightarrow> r = Inr () \<and> new_calls w w' = [Down n None])
       \<and> (r = Inr () \<longrightarrow> new_calls w w' = [Down n None]
             \<and> ledger w' = filter (\<lambda>r. migration_name r \<noteq> n) (ledger w) \<and> n \<notin> recorded w')
       \<and> (Down n None \<in> set (new_calls w w') \<longrightarrow>
             r = Inr () \<and> ledger w' = filter (\<lambda>r. migration_name r \<noteq> n) (ledger w)
             \<and> n \<notin> recorded w')
       \<and> (\<forall>files m c. fst (getMigrationFiles w) = Inr files
               \<and> find (\<lambda>m. name m = n) files = Some m \<and> load_migration_class modules m = Inr c \<longrightarrow>
             new_calls w w' = [Down n (fst (down c (store w)))]
             \<and> (fst (down c (store w)) = None \<longrightarrow>
                   r = Inr () \<and> ledger w' = filter (\<lambda>r. migration_name r \<noteq> n) (ledger w)
                   \<and> n \<notin> recorded w')
             \<and> (\<forall>e. fst (down c (store w)) = Some e \<longrightarrow>
                   r = Inl e \<and> ledger w' = ledger w \<and> n \<in> recorded w'))"
  using assms(1)
proof (cases rule: rollbackSingleMigration_cases)
  case (discovery_fail e)
  then show ?thesis by (simp add: new_calls_def ledger_def)
next
  case (not_found files)
  then show ?thesis by (simp add: new_calls_def ledger_def)
next
  case (load_fail files m e)
  then show ?thesis by (simp add: new_calls_def ledger_def)
next
  case (down_fail files m c e)
  then show ?thesis using assms(2) by (simp add: new_calls_def ledger_def recorded_def)
next
  case (remove_fail files m c)
  then show ?thesis using assms(2) by (simp add: recorded_None)
next
  case (rolled_back files m c t)
  then show ?thesis by (auto simp: new_calls_def ledger_def recorded_def)
qed

lemma demo_rollback_b_fails:
  "rollbackSingleMigration demo_modules_b_fails ''b'' demo_world_all_applied =
     (Inl (OperationFailure ''boom''),
      demo_world_all_applied
        \<lparr>console := [Out ''Rolling back: b''],
         calls := [Down ''b'' (Some (OperationFailure ''boom''))]\<rparr>)"
  by (simp add: engine_defs demo_defs demo_world_all_applied_def)

lemma demo_rollback_b:
  "new_calls demo_world_all_applied
      (snd (rollbackSingleMigration demo_modules ''b'' demo_world_all_applied))
     = [Down ''b'' None]"
  by (simp add: engine_defs demo_defs demo_world_all_applied_def new_calls_def)

text \<open>The theorem at the ledger of \<open>a\<close>, \<open>b\<close> and \<open>c\<close>: with a backward operation of \<open>b\<close> that
  throws, the error is thrown and the three rows stay; with one that returns, the method
  returns and the rows of \<open>a\<close> and \<open>c\<close> are left.\<close>

theorem rollbackSingleMigration_record_witness:
  "''b'' \<in> recorded demo_world_all_applied
   \<and> Down ''b'' (Some (OperationFailure ''boom''))
        \<in> set (new_calls demo_world_all_applied
             (snd (rollbackSingleMigration demo_modules_b_fails ''b'' demo_world_all_applied)))
   \<and> fst (rollbackSingleMigration demo_modules_b_fails ''b'' demo_world_all_applied)
        = Inl (OperationFailure ''boom'')
   \<and> ledger (snd (rollbackSingleMigration demo_modules_b_fails ''b'' demo_world_all_applied))
        = ledger demo_world_all_applied
   \<and> Down ''b'' None
        \<in> set (new_calls demo_world_all_applied
             (snd (rollbackSingleMigration demo_modules ''b'' demo_world_all_applied)))
   \<and> fst (rollbackSingleMigration demo_modules ''b'' demo_world_all_applied) = Inr ()
   \<and> ledger (snd (rollbackSingleMigration demo_modules ''b'' demo_world_all_applied))
        = [\<lparr>migration_name = ''a'', executed_at = 100, batch = Some 1\<rparr>,
           \<lparr>migration_name = ''c'', executed_at = 102, batch = Some 1\<rparr>]"
proof -
  have rec: "''b'' \<in> recorded demo_world_all_applied"
    by (simp add: recorded_def ledger_def demo_world_all_applied_def)
  have dn: "Down ''b'' (Some (OperationFailure ''boom''))
        \<in> set (new_calls demo_world_all_applied
             (snd (rollbackSingleMigration demo_modules_b_fails ''b'' demo_world_all_applied)))"
    by (simp add: demo_rollback_b_fails new_calls_def) (simp add: demo_world_all_applied_def)
  from rollbackSingleMigration_record[OF surjective_pairing rec, of demo_modules_b_fails] dn
  have failing: "fst (rollbackSingleMigration demo_modules_b_fails ''b'' demo_world_all_applied)
        = Inl (OperationFailure ''boom'')"
    "ledger (snd (rollbackSingleMigration demo_modules_b_fails ''b'' demo_world_all_applied))
        = ledger demo_world_all_applied"
    by blast+
  have up: "Down ''b'' None
        \<in> set (new_calls demo_world_all_applied
             (snd (rollbackSingleMigration demo_modules ''b'' demo_world_all_applied)))"
    by (simp add: demo_rollback_b)
  from rollbackSingleMigration_record[OF surjective_pairing rec, of demo_modules] up
  have returning: "fst (rollbackSingleMigration demo_modules ''b'' demo_world_all_applied) = Inr ()"
    "ledger (snd (rollbackSingleMigration demo_modules ''b'' demo_world_all_applied))
        = filter (\<lambda>r. migration_name r \<noteq> ''b'') (ledger demo_world_all_applied)"
    by blast+
  have "filter (\<lambda>r. migration_name r \<noteq> ''b'') (ledger demo_world_all_applied)
        = [\<lparr>migration_name = ''a'', executed_at = 100, batch = Some 1\<rparr>,
           \<lparr>migration_name = ''c'', executed_at = 102, batch = Some 1\<rparr>]"
    by (simp add: ledger_def demo_world_all_applied_def)
  with rec dn failing up returning show ?thesis by simp
qed

text \<open>
  Claim C7, as the code has it. For a name that the ledger does not record,
  rollbackSpecificMigration logs a message (that the table does not exist, or that the
  migration was not executed or not found), returns, and invokes nothing.
  rollbackSingleMigration does not look at the ledger: when discovery finds no file of
  that name it throws \<open>Migration ... not found\<close> without invoking anything, and when it
  finds one whose class loads it invokes the backward operation of that class.
\<close>

theorem rollback_not_recorded:
  assumes "n \<notin> recorded w"
  shows "rollbackSpecificMigration modules n w =
           (Inr (),
            log (if migrations w = None then table_missing_text
                 else ''Migration '' @ [CHR 0x27] @ n @ [CHR 0x27] @ '' was not executed or not found'') w)
     \<and> (\<forall>files. fst (getMigrationFiles w) = Inr files \<and> find (\<lambda>m. name m = n) files = None \<longrightarrow>
           fst (rollbackSingleMigration modules n w) = Inl (Error (''Migration '' @ n @ '' not found''))
           \<and> new_calls w (snd (rollbackSingleMigration modules n w)) = [])
     \<and> (\<forall>files m c. fst (getMigrationFiles w) = Inr files \<and> find (\<lambda>m. name m = n) files = Some m
             \<and> load_migration_class modules m = Inr c \<longrightarrow>
           new_calls w (snd (rollbackSingleMigration modules n w)) = [Down n (fst (down c (store w)))])"
proof (intro conjI allI impI)
  show "rollbackSpecificMigration modules n w =
           (Inr (),
            log (if migrations w = None then table_missing_text
                 else ''Migration '' @ [CHR 0x27] @ n @ [CHR 0x27] @ '' was not executed or not found'') w)"
  proof (cases "migrations w")
    case None
    then show ?thesis
      by (simp add: rollbackSpecificMigration_def migrationTableExists_def catch_log_def)
  next
    case (Some t)
    then obtain ns where ns: "getExecutedMigrations w = Inr ns"
      by (simp add: getExecutedMigrations_def)
    with assms have "n \<notin> set ns" by (simp add: getExecutedMigrations_set)
    with Some ns show ?thesis
      by (simp add: rollbackSpecificMigration_def migrationTableExists_def catch_log_def)
  qed
next
  fix files
  assume a: "fst (getMigrationFiles w) = Inr files \<and> find (\<lambda>m. name m = n) files = None"
  obtain r w' where run: "rollbackSingleMigration modules n w = (r, w')"
    by (cases "rollbackSingleMigration modules n w")
  from run a have "r = Inl (Error (''Migration '' @ n @ '' not found'')) \<and> new_calls w w' = []"
    by (cases rule: rollbackSingleMigration_cases) (auto simp: new_calls_def)
  with run show "fst (rollbackSingleMigration modules n w) = Inl (Error (''Migration '' @ n @ '' not found''))"
    and "new_calls w (snd (rollbackSingleMigration modules n w)) = []" by simp_all
next
  fix files m c
  assume a: "fst (getMigrationFiles w) = Inr files \<and> find (\<lambda>m. name m = n) files = Some m
             \<and> load_migration_class modules m = Inr c"
  obtain r w' where run: "rollbackSingleMigration modules n w = (r, w')"
    by (cases "rollbackSingleMigration modules n w")
  from run a have "new_calls w w' = [Down n (fst (down c (store w)))]"
    by (cases rule: rollbackSingleMigration_cases) (auto simp: new_calls_def)
  with run show "new_calls w (snd (rollbackSingleMigration modules n w)) = [Down n (fst (down c (store w)))]"
    by simp
qed

lemma demo_rollback_b_unrecorded:
  "rollbackSingleMigration demo_modules ''b'' demo_world_a_applied =
     (Inr (),
      demo_world_a_applied
        \<lparr>store := 0, console := [Out ''Rolling back: b'', Out ''Rolled back: b''],
         calls := [Down ''b'' None]\<rparr>)"
  by (simp add: engine_defs demo_defs demo_world_a_applied_def)

theorem rollback_not_recorded_witness:
  "''b'' \<notin> recorded demo_world_a_applied
   \<and> rollbackSpecificMigration demo_modules ''b'' demo_world_a_applied =
       (Inr (), log (''Migration '' @ [CHR 0x27] @ ''b'' @ [CHR 0x27] @ '' was not executed or not found'')
                  demo_world_a_applied)"
proof -
  have rec: "''b'' \<notin> recorded demo_world_a_applied"
    by (simp add: recorded_def ledger_def demo_world_a_applied_def)
  have "migrations demo_world_a_applied \<noteq> None" by (simp add: demo_world_a_applied_def)
  with rollback_not_recorded[OF rec, of demo_modules] rec show ?thesis by simp
qed

text \<open>The claim as it is written fails: \<open>b\<close> is not recorded, and rollbackSingleMigration
  returns without an error after it has invoked the backward operation of \<open>b\<close>.\<close>

theorem rollbackSingleMigration_not_recorded_counterexample:
  "''b'' \<notin> recorded demo_world_a_applied
   \<and> fst (rollbackSingleMigration demo_modules ''b'' demo_world_a_applied) = Inr ()
   \<and> calls (snd (rollbackSingleMigration demo_modules ''b'' demo_world_a_applied)) = [Down ''b'' None]"
  by (simp add: demo_rollback_b_unrecorded)
     (simp add: recorded_def ledger_def demo_world_a_applied_def)

subsection \<open>Claim C4: the order of rollback\<close>

lemma rollbackSingleMigration_calls:
  assumes "rollbackSingleMigration modules n w = (r, w')"
  shows "(r = Inr () \<and> calls w' = calls w @ [Down n None])
       \<or> (\<exists>e. r = Inl e \<and> (calls w' = calls w \<or> (\<exists>x. calls w' = calls w @ [Down n x])))"
  using assms by (cases rule: rollbackSingleMigration_cases) auto

text \<open>The loop over names invokes backward operations only, for a prefix of the names in
  their order, and for all of them when it comes to its end.\<close>

lemma rollback_each_calls:
  "rollback_each modules ns w = (r, w') \<Longrightarrow>
     \<exists>evs k. calls w' = calls w @ evs \<and> map call_name evs = take k ns
        \<and> list_all (\<lambda>c. \<not> is_Up c) evs
        \<and> (r = Inr () \<longrightarrow> evs = map (\<lambda>n. Down n None) ns)"
proof (induction ns arbitrary: w)
  case Nil
  then show ?case by simp
next
  case (Cons n rest)
  obtain r1 w1 where one: "rollbackSingleMigration modules n w = (r1, w1)"
    by (cases "rollbackSingleMigration modules n w")
  from rollbackSingleMigration_calls[OF one] show ?case
  proof (elim disjE conjE exE)
    assume r1: "r1 = Inr ()" and c1: "calls w1 = calls w @ [Down n None]"
    with Cons.prems one have "rollback_each modules rest w1 = (r, w')" by simp
    from Cons.IH[OF this] obtain evs k where
      *: "calls w' = calls w1 @ evs" "map call_name evs = take k rest"
      "list_all (\<lambda>c. \<not> is_Up c) evs" "r = Inr () \<longrightarrow> evs = map (\<lambda>n. Down n None) rest"
      by blast
    have "calls w' = calls w @ (Down n None # evs)
        \<and> map call_name (Down n None # evs) = take (Suc k) (n # rest)
        \<and> list_all (\<lambda>c. \<not> is_Up c) (Down n None # evs)
        \<and> (r = Inr () \<longrightarrow> Down n None # evs = map (\<lambda>n. Down n None) (n # rest))"
      using * c1 by simp
    then show ?thesis by (intro exI[of _ "Down n None # evs"] exI[of _ "Suc k"])
  next
    fix e assume r1: "r1 = Inl e" and c1: "calls w1 = calls w"
    with Cons.prems one have "r = Inl e" "w' = w1" by simp_all
    with c1 have "calls w' = calls w @ [] \<and> map call_name [] = take 0 (n # rest)
        \<and> list_all (\<lambda>c. \<not> is_Up c) [] \<and> (r = Inr () \<longrightarrow> [] = map (\<lambda>n. Down n None) (n # rest))"
      by simp
    then show ?thesis by (intro exI[of _ "[]"] exI[of _ "0"])
  next
    fix e x assume r1: "r1 = Inl e" and c1: "calls w1 = calls w @ [Down n x]"
    with Cons.prems one have "r = Inl e" "w' = w1" by simp_all
    with c1 have "calls w' = calls w @ [Down n x] \<and> map call_name [Down n x] = take 1 (n # rest)
        \<and> list_all (\<lambda>c. \<not> is_Up c) [Down n x]
        \<and> (r = Inr () \<longrightarrow> [Down n x] = map (\<lambda>n. Down n None) (n # rest))"
      by simp
    then show ?thesis by (intro exI[of _ "[Down n x]"] exI[of _ "1"])
  qed
qed

lemma newest_first_order_by: "newest_first (order_by_executed_at_desc rs)"
proof -
  have "sorted (map executed_at (sort_key executed_at rs))" by (rule sorted_sort_key)
  then have "sorted_wrt (\<lambda>a b. executed_at a \<le> executed_at b) (sort_key executed_at rs)"
    by (simp add: sorted_map)
  then have "sorted_wrt (\<lambda>b a. executed_at a \<le> executed_at b) (rev (sort_key executed_at rs))"
    by (simp add: sorted_wrt_rev)
  then show ?thesis by (simp add: newest_first_def order_by_executed_at_desc_def)
qed

lemma mset_order_by [simp]: "mset (order_by_executed_at_desc rs) = mset rs"
  by (simp add: order_by_executed_at_desc_def)

text \<open>Rows of pairwise different times have one order newest first: whatever their order in
  the table, the rows applied in the order \<open>xs\<close> come out as \<open>rev xs\<close>.\<close>

lemma order_by_executed_at_desc_unique:
  assumes "sorted_wrt (\<lambda>a b. executed_at a < executed_at b) xs" and "mset ys = mset xs"
  shows "order_by_executed_at_desc ys = rev xs"
proof -
  from assms(1) have "sorted_wrt (<) (map executed_at xs)" by (simp add: sorted_wrt_map)
  then have sx: "sorted (map executed_at xs)" and dx: "distinct (map executed_at xs)"
    by (simp_all add: strict_sorted_iff)
  have set_eq: "set ys = set xs" using assms(2) by (rule mset_eq_setD)
  from dx have inj: "inj_on executed_at (set xs)" and "distinct xs"
    by (simp_all add: distinct_map)
  with assms(2) have "distinct ys" by (metis mset_eq_imp_distinct_iff)
  with inj set_eq have dy: "distinct (map executed_at ys)" by (simp add: distinct_map)
  have "sort_key executed_at ys = xs"
  proof (rule map_sorted_distinct_set_unique[where f = executed_at])
    show "inj_on executed_at (set (sort_key executed_at ys) \<union> set xs)"
      using inj set_eq by simp
    show "sorted (map executed_at (sort_key executed_at ys))" by (rule sorted_sort_key)
    show "distinct (map executed_at (sort_key executed_at ys))"
      using dy by (simp add: distinct_map)
    show "sorted (map executed_at xs)" by fact
    show "distinct (map executed_at xs)" by fact
    show "set (sort_key executed_at ys) = set xs" using set_eq by simp
  qed
  then show ?thesis by (simp add: order_by_executed_at_desc_def)
qed


lemma rollback_each_new_calls:
  assumes "rollback_each modules ns v = (r, w')" and "calls v = calls w"
  shows "(\<exists>k. map call_name (new_calls w w') = take k ns)
       \<and> list_all (\<lambda>c. \<not> is_Up c) (new_calls w w')
       \<and> (r = Inr () \<longrightarrow> new_calls w w' = map (\<lambda>n. Down n None) ns)"
proof -
  from rollback_each_calls[OF assms(1)] obtain evs k where
    *: "calls w' = calls v @ evs" "map call_name evs = take k ns"
      "list_all (\<lambda>c. \<not> is_Up c) evs" "r = Inr () \<longrightarrow> evs = map (\<lambda>n. Down n None) ns"
    by blast
  from *(1) assms(2) have "new_calls w w' = evs" by (simp add: new_calls_append)
  with * show ?thesis by auto
qed

lemma getLastBatch_rows:
  "migrations w = Some t \<Longrightarrow> has_batch t \<Longrightarrow>
     getLastBatch w = Inr (map migration_name (last_batch_rows t))"
  by (simp add: getLastBatch_def last_batch_rows_def)

lemma rollbackLastBatch_new_calls:
  assumes "migrations w = Some t"
  shows "(\<exists>k. map call_name (new_calls w (snd (rollbackLastBatch modules w)))
               = take k (map migration_name (last_batch_rows t)))
       \<and> list_all (\<lambda>c. \<not> is_Up c) (new_calls w (snd (rollbackLastBatch modules w)))
       \<and> (fst (rollbackLastBatch modules w) = Inr () \<longrightarrow>
            new_calls w (snd (rollbackLastBatch modules w))
              = map (\<lambda>r. Down (migration_name r) None) (last_batch_rows t))"
proof (cases "has_batch t")
  case False
  with assms have "rollbackLastBatch modules w
      = (Inl column_missing, w\<lparr>console := console w @ [Err ''Last batch rollback failed:'' column_missing]\<rparr>)"
    by (simp add: rollbackLastBatch_def migrationTableExists_def getLastBatch_def catch_log_def)
  then show ?thesis by (simp add: new_calls_def)
next
  case True
  note lb = getLastBatch_rows[OF assms True]
  show ?thesis
  proof (cases "last_batch_rows t = []")
    case True
    with assms lb have "rollbackLastBatch modules w = (Inr (), log ''No migrations to rollback'' w)"
      by (simp add: rollbackLastBatch_def migrationTableExists_def catch_log_def)
    with True show ?thesis by (simp add: new_calls_def)
  next
    case False
    let ?ns = "map migration_name (last_batch_rows t)"
    let ?v = "log (''Rolling back last batch ('' @ show_nat (length ?ns) @ '' migrations)...'') w"
    obtain r1 w1 where each: "rollback_each modules ?ns ?v = (r1, w1)"
      by (cases "rollback_each modules ?ns ?v")
    have "calls ?v = calls w" by simp
    note nc = rollback_each_new_calls[OF each this]
    from assms lb False each have
      "fst (rollbackLastBatch modules w) = r1
       \<and> new_calls w (snd (rollbackLastBatch modules w)) = new_calls w w1"
      by (cases r1)
         (simp_all add: rollbackLastBatch_def migrationTableExists_def catch_log_def Let_def)
    with nc show ?thesis by (simp add: comp_def)
  qed
qed

lemma rollbackAllMigrations_new_calls:
  assumes "migrations w = Some t"
  shows "(\<exists>k. map call_name (new_calls w (snd (rollbackAllMigrations modules w)))
               = take k (map migration_name (order_by_executed_at_desc (rows t))))
       \<and> list_all (\<lambda>c. \<not> is_Up c) (new_calls w (snd (rollbackAllMigrations modules w)))
       \<and> (fst (rollbackAllMigrations modules w) = Inr () \<longrightarrow>
            new_calls w (snd (rollbackAllMigrations modules w))
              = map (\<lambda>r. Down (migration_name r) None) (order_by_executed_at_desc (rows t)))"
proof (cases "order_by_executed_at_desc (rows t) = []")
  case True
  with assms have "rollbackAllMigrations modules w
      = (Inr (), log ''No migrations to rollback'' (log ''Rolling back all migrations...'' w))"
    by (simp add: rollbackAllMigrations_def migrationTableExists_def getExecutedMigrations_def
        catch_log_def Let_def)
  with True show ?thesis by (simp add: new_calls_def)
next
  case False
  let ?ns = "map migration_name (order_by_executed_at_desc (rows t))"
  let ?v = "log ''Rolling back all migrations...'' w"
  obtain r1 w1 where each: "rollback_each modules ?ns ?v = (r1, w1)"
    by (cases "rollback_each modules ?ns ?v")
  have "calls ?v = calls w" by simp
  note nc = rollback_each_new_calls[OF each this]
  from assms False each have
    "fst (rollbackAllMigrations modules w) = r1
     \<and> new_calls w (snd (rollbackAllMigrations modules w)) = new_calls w w1"
    by (cases r1)
       (simp_all add: rollbackAllMigrations_def migrationTableExists_def getExecutedMigrations_def
          catch_log_def Let_def)
  with nc show ?thesis by (simp add: comp_def)
qed

text \<open>
  Claim C4. rollbackLastBatch and rollbackAllMigrations invoke backward operations only,
  for the rows of the last batch and for all rows of the ledger: for a first part of them
  in the order newest first (by \<open>executed_at\<close>, descending), and for all of them in that
  order when the rollback returns. When the rows were applied in the order \<open>xs\<close>, at
  increasing times, that order is \<open>rev xs\<close>: a batch applied as A, B, C is undone as
  C, B, A.
\<close>

theorem rollback_newest_first:
  assumes "migrations w = Some t"
  shows "newest_first (last_batch_rows t)
     \<and> mset (last_batch_rows t)
         = mset (filter (\<lambda>r. batch r \<noteq> None \<and> batch r = max_batch (rows t)) (rows t))
     \<and> ((\<exists>k. map call_name (new_calls w (snd (rollbackLastBatch modules w)))
               = take k (map migration_name (last_batch_rows t)))
       \<and> list_all (\<lambda>c. \<not> is_Up c) (new_calls w (snd (rollbackLastBatch modules w)))
       \<and> (fst (rollbackLastBatch modules w) = Inr () \<longrightarrow>
            new_calls w (snd (rollbackLastBatch modules w))
              = map (\<lambda>r. Down (migration_name r) None) (last_batch_rows t)))
     \<and> (\<forall>xs. sorted_wrt (\<lambda>a b. executed_at a < executed_at b) xs
             \<and> mset xs = mset (filter (\<lambda>r. batch r \<noteq> None \<and> batch r = max_batch (rows t)) (rows t))
           \<longrightarrow> last_batch_rows t = rev xs)
     \<and> newest_first (order_by_executed_at_desc (rows t))
     \<and> mset (order_by_executed_at_desc (rows t)) = mset (rows t)
     \<and> ((\<exists>k. map call_name (new_calls w (snd (rollbackAllMigrations modules w)))
               = take k (map migration_name (order_by_executed_at_desc (rows t))))
       \<and> list_all (\<lambda>c. \<not> is_Up c) (new_calls w (snd (rollbackAllMigrations modules w)))
       \<and> (fst (rollbackAllMigrations modules w) = Inr () \<longrightarrow>
            new_calls w (snd (rollbackAllMigrations modules w))
              = map (\<lambda>r. Down (migration_name r) None) (order_by_executed_at_desc (rows t))))
     \<and> (\<forall>xs. sorted_wrt (\<lambda>a b. executed_at a < executed_at b) xs \<and> mset xs = mset (rows t)
           \<longrightarrow> order_by_executed_at_desc (rows t) = rev xs)"
proof (intro conjI allI impI)
  show "newest_first (last_batch_rows t)"
    by (simp add: last_batch_rows_def newest_first_order_by)
  show "mset (last_batch_rows t)
         = mset (filter (\<lambda>r. batch r \<noteq> None \<and> batch r = max_batch (rows t)) (rows t))"
    by (simp add: last_batch_rows_def)
  show "newest_first (order_by_executed_at_desc (rows t))" by (rule newest_first_order_by)
  show "mset (order_by_executed_at_desc (rows t)) = mset (rows t)" by simp
  show "last_batch_rows t = rev xs"
    if "sorted_wrt (\<lambda>a b. executed_at a < executed_at b) xs
        \<and> mset xs = mset (filter (\<lambda>r. batch r \<noteq> None \<and> batch r = max_batch (rows t)) (rows t))"
    for xs
    using that unfolding last_batch_rows_def
    by (intro order_by_executed_at_desc_unique) simp_all
  show "order_by_executed_at_desc (rows t) = rev xs"
    if "sorted_wrt (\<lambda>a b. executed_at a < executed_at b) xs \<and> mset xs = mset (rows t)" for xs
    using that by (intro order_by_executed_at_desc_unique) simp_all
qed (use rollbackLastBatch_new_calls[OF assms, of modules]
         rollbackAllMigrations_new_calls[OF assms, of modules] in blast)+


lemma demo_rollback_last_batch_returns:
  "fst (rollbackLastBatch demo_modules demo_world_all_applied) = Inr ()"
  by (simp add: engine_defs demo_defs demo_world_all_applied_def show_nat.simps)

theorem rollback_newest_first_witness:
  "migrations demo_world_all_applied =
     Some \<lparr>has_batch = True,
          rows = [\<lparr>migration_name = ''a'', executed_at = 100, batch = Some 1\<rparr>,
                  \<lparr>migration_name = ''b'', executed_at = 101, batch = Some 1\<rparr>,
                  \<lparr>migration_name = ''c'', executed_at = 102, batch = Some 1\<rparr>]\<rparr>
   \<and> new_calls demo_world_all_applied (snd (rollbackLastBatch demo_modules demo_world_all_applied))
       = [Down ''c'' None, Down ''b'' None, Down ''a'' None]"
proof -
  let ?A = "\<lparr>migration_name = ''a'', executed_at = 100, batch = Some 1\<rparr>"
  let ?B = "\<lparr>migration_name = ''b'', executed_at = 101, batch = Some 1\<rparr>"
  let ?C = "\<lparr>migration_name = ''c'', executed_at = 102, batch = Some 1\<rparr>"
  let ?t = "\<lparr>has_batch = True, rows = [?A, ?B, ?C]\<rparr>"
  have t: "migrations demo_world_all_applied = Some ?t"
    by (simp add: demo_world_all_applied_def)
  note main = rollback_newest_first[OF t, of demo_modules]
  have order: "sorted_wrt (\<lambda>a b. executed_at a < executed_at b) [?A, ?B, ?C]
      \<and> mset [?A, ?B, ?C]
          = mset (filter (\<lambda>r. batch r \<noteq> None \<and> batch r = max_batch (rows ?t)) (rows ?t))"
    by simp
  from main order have "last_batch_rows ?t = rev [?A, ?B, ?C]" by blast
  moreover from main demo_rollback_last_batch_returns
  have "new_calls demo_world_all_applied (snd (rollbackLastBatch demo_modules demo_world_all_applied))
      = map (\<lambda>r. Down (migration_name r) None) (last_batch_rows ?t)" by blast
  ultimately show ?thesis using t by simp
qed

subsection \<open>Claim C10: no ledger table\<close>

text \<open>
  Claim C10. While the ledger table does not exist, rollbackLastBatch, rollbackSteps,
  rollbackAllMigrations, rollbackSpecificMigration and showMigrationStatus return and
  only write to the console: the table is still missing, no operation has been invoked,
  and store, directory and clock are as before. runMigrations leaves a world in which the
  table exists.
\<close>

theorem no_ledger_table:
  assumes "migrations w = None"
  shows "rollbackLastBatch modules w = (Inr (), w\<lparr>console := console w @ [Out table_missing_text]\<rparr>)
     \<and> rollbackSteps modules steps w = (Inr (), w\<lparr>console := console w @ [Out table_missing_text]\<rparr>)
     \<and> rollbackAllMigrations modules w =
         (Inr (), w\<lparr>console := console w @ [Out ''Rolling back all migrations...'', Out table_missing_text]\<rparr>)
     \<and> rollbackSpecificMigration modules n w =
         (Inr (), w\<lparr>console := console w @ [Out table_missing_text]\<rparr>)
     \<and> showMigrationStatus toLocaleString w =
         (Inr (), w\<lparr>console := console w @
            [Out ''Migration table does not exist. Run npm run migrate:run to create it.'']\<rparr>)
     \<and> (\<forall>c. same_but_console w (w\<lparr>console := c\<rparr>) \<and> migrations (w\<lparr>console := c\<rparr>) = None
            \<and> new_calls w (w\<lparr>console := c\<rparr>) = [])
     \<and> migrations (snd (runMigrations modules w)) \<noteq> None"
proof -
  obtain r w' where run: "runMigrations modules w = (r, w')" by (cases "runMigrations modules w")
  have "migrations w' \<noteq> None"
    using run
  proof (cases rule: runMigrations_cases)
    case (discovery_fail e wd)
    with runMigrations_prepare(1)[OF discovery_fail(1)] show ?thesis by simp
  next
    case (loop_fail files wd e wl)
    with runMigrations_loop_table[OF loop_fail(2) runMigrations_prepare(1)[OF loop_fail(1)]]
    show ?thesis by simp
  next
    case (finished files wd k cb wl)
    with runMigrations_loop_table[OF finished(2) runMigrations_prepare(1)[OF finished(1)]]
    show ?thesis by simp
  qed
  with run assms show ?thesis
    by (simp add: rollbackLastBatch_def rollbackSteps_def rollbackAllMigrations_def
        rollbackSpecificMigration_def showMigrationStatus_def migrationTableExists_def
        catch_log_def log_def same_but_console_def new_calls_def Let_def)
qed

theorem no_ledger_table_witness:
  "migrations demo_world = None
   \<and> rollbackLastBatch demo_modules demo_world
       = (Inr (), demo_world\<lparr>console := [Out table_missing_text]\<rparr>)
   \<and> rollbackAllMigrations demo_modules demo_world
       = (Inr (), demo_world\<lparr>console := [Out ''Rolling back all migrations...'', Out table_missing_text]\<rparr>)
   \<and> migrations (snd (runMigrations demo_modules demo_world)) \<noteq> None"
proof -
  have none: "migrations demo_world = None" and con: "console demo_world = []"
    by (simp_all add: demo_world_def)
  from no_ledger_table[OF none, of demo_modules] none con show ?thesis by simp
qed

subsection \<open>Discovery and the schema of the ledger: claims C5 and C6\<close>

lemma set_insert_string [simp]: "set (insert_string s xs) = insert s (set xs)"
  by (induction xs) auto

lemma set_sort_strings [simp]: "set (sort_strings xs) = set xs"
  by (induction xs) (simp_all add: sort_strings_def)

lemma parse_filenames_invalid:
  "\<exists>f\<in>set fs. match_filename f = None \<Longrightarrow>
     \<exists>f\<in>set fs. match_filename f = None
        \<and> parse_filenames fs = Inl (Error (''Invalid migration filename format: '' @ f))"
proof (induction fs)
  case Nil
  then show ?case by simp
next
  case (Cons f fs)
  show ?case
  proof (cases "match_filename f")
    case None
    then show ?thesis by simp
  next
    case (Some p)
    with Cons.prems have "\<exists>g\<in>set fs. match_filename g = None" by auto
    from Cons.IH[OF this] Some show ?thesis by (cases p) auto
  qed
qed

lemma parse_filenames_valid:
  "\<forall>f\<in>set fs. match_filename f \<noteq> None \<Longrightarrow>
     \<exists>ms. parse_filenames fs = Inr ms \<and> map filename ms = fs"
  by (induction fs) auto

text \<open>The shape of the names that \<open>match_filename\<close> accepts, as the pattern reads: fifteen
  characters of time stamp, an underscore, a name that is not empty and has no line
  terminator, and the extension.\<close>

lemma match_filename_iff:
  "match_filename f = Some (ts, n) \<longleftrightarrow>
     (\<exists>ext. f = ts @ ''_'' @ n @ ext \<and> length ts = 15 \<and> list_all is_digit (take 8 ts)
        \<and> take 1 (drop 8 ts) = ''T'' \<and> list_all is_digit (drop 9 ts)
        \<and> n \<noteq> [] \<and> \<not> list_ex is_line_terminator n \<and> (ext = ''.ts'' \<or> ext = ''.js''))"
proof
  assume m: "match_filename f = Some (ts, n)"
  let ?body = "drop 16 f"
  from m have ts: "ts = take 15 f" and n: "n = take (length ?body - 3) ?body"
    and c: "length ts = 15" "list_all is_digit (take 8 ts)" "take 1 (drop 8 ts) = ''T''"
      "list_all is_digit (drop 9 ts)" "take 1 (drop 15 f) = ''_''" "n \<noteq> []"
      "\<not> list_ex is_line_terminator n"
      "drop (length ?body - 3) ?body = ''.ts'' \<or> drop (length ?body - 3) ?body = ''.js''"
    by (auto simp: match_filename_def Let_def split: if_splits)
  have "drop 15 f = take 1 (drop 15 f) @ drop 1 (drop 15 f)" by (simp only: append_take_drop_id)
  with c(5) have "drop 15 f = ''_'' @ ?body" by simp
  moreover have "f = take 15 f @ drop 15 f" by simp
  moreover have "?body = n @ drop (length ?body - 3) ?body"
    unfolding n by (simp only: append_take_drop_id)
  ultimately have "f = ts @ ''_'' @ n @ drop (length ?body - 3) ?body"
    using ts by metis
  with c show "\<exists>ext. f = ts @ ''_'' @ n @ ext \<and> length ts = 15 \<and> list_all is_digit (take 8 ts)
        \<and> take 1 (drop 8 ts) = ''T'' \<and> list_all is_digit (drop 9 ts)
        \<and> n \<noteq> [] \<and> \<not> list_ex is_line_terminator n \<and> (ext = ''.ts'' \<or> ext = ''.js'')"
    by blast
next
  assume "\<exists>ext. f = ts @ ''_'' @ n @ ext \<and> length ts = 15 \<and> list_all is_digit (take 8 ts)
        \<and> take 1 (drop 8 ts) = ''T'' \<and> list_all is_digit (drop 9 ts)
        \<and> n \<noteq> [] \<and> \<not> list_ex is_line_terminator n \<and> (ext = ''.ts'' \<or> ext = ''.js'')"
  then obtain ext where f: "f = ts @ ''_'' @ n @ ext" and c: "length ts = 15"
    "list_all is_digit (take 8 ts)" "take 1 (drop 8 ts) = ''T''" "list_all is_digit (drop 9 ts)"
    "n \<noteq> []" "\<not> list_ex is_line_terminator n" and ext: "ext = ''.ts'' \<or> ext = ''.js''"
    by blast
  from ext have le: "length ext = 3" by auto
  have t15: "take 15 f = ts" and d15: "drop 15 f = ''_'' @ n @ ext" and d16: "drop 16 f = n @ ext"
    using f c(1) by simp_all
  show "match_filename f = Some (ts, n)"
    using c ext le by (simp add: match_filename_def Let_def t15 d15 d16)
qed

text \<open>The pattern of the code accepts what the pattern of the specification accepts.\<close>

lemma spec_filename_pattern_match:
  "spec_filename_pattern f \<Longrightarrow> match_filename f \<noteq> None"
  by (auto simp: spec_filename_pattern_def match_filename_def Let_def list_ex_iff list_all_iff
      is_slug_char_def is_line_terminator_def)

text \<open>
  Claim C5, as the code has it. Discovery looks only at the entries whose names end with
  \<open>.ts\<close> or \<open>.js\<close>. If one of them does not match \<open>^(\d{8}T\d{6})_(.+)\.(ts|js)$\<close>, the
  whole scan throws \<open>Invalid migration filename format\<close> for such an entry and gives no
  list; if all of them match, the scan gives one definition for each of them. Every
  name that the pattern of the specification accepts matches.
\<close>

theorem getMigrationFiles_invalid_name:
  assumes "dir w = Some entries"
  shows "((\<exists>f\<in>set entries. (endsWith f ''.ts'' \<or> endsWith f ''.js'') \<and> match_filename f = None) \<longrightarrow>
            (\<exists>f\<in>set entries. (endsWith f ''.ts'' \<or> endsWith f ''.js'') \<and> match_filename f = None
               \<and> getMigrationFiles w = (Inl (Error (''Invalid migration filename format: '' @ f)), w)))
       \<and> ((\<forall>f\<in>set entries. (endsWith f ''.ts'' \<or> endsWith f ''.js'') \<longrightarrow> match_filename f \<noteq> None) \<longrightarrow>
            (\<exists>ms. getMigrationFiles w = (Inr ms, w)
               \<and> map filename ms
                   = sort_strings (filter (\<lambda>file. endsWith file ''.ts'' \<or> endsWith file ''.js'') entries)))
       \<and> (\<forall>f. spec_filename_pattern f \<longrightarrow> match_filename f \<noteq> None)"
proof (intro conjI impI allI)
  let ?fs = "sort_strings (filter (\<lambda>file. endsWith file ''.ts'' \<or> endsWith file ''.js'') entries)"
  have gf: "getMigrationFiles w = (parse_filenames ?fs, w)"
    using assms by (simp add: getMigrationFiles_def)
  {
    assume "\<exists>f\<in>set entries. (endsWith f ''.ts'' \<or> endsWith f ''.js'') \<and> match_filename f = None"
    then have "\<exists>f\<in>set ?fs. match_filename f = None" by auto
    from parse_filenames_invalid[OF this] gf
    show "\<exists>f\<in>set entries. (endsWith f ''.ts'' \<or> endsWith f ''.js'') \<and> match_filename f = None
               \<and> getMigrationFiles w = (Inl (Error (''Invalid migration filename format: '' @ f)), w)"
      by auto
  }
  {
    assume "\<forall>f\<in>set entries. (endsWith f ''.ts'' \<or> endsWith f ''.js'') \<longrightarrow> match_filename f \<noteq> None"
    then have "\<forall>f\<in>set ?fs. match_filename f \<noteq> None" by auto
    from parse_filenames_valid[OF this] gf
    show "\<exists>ms. getMigrationFiles w = (Inr ms, w) \<and> map filename ms = ?fs" by auto
  }
  fix f assume "spec_filename_pattern f"
  then show "match_filename f \<noteq> None" by (rule spec_filename_pattern_match)
qed

theorem getMigrationFiles_invalid_name_witness:
  "dir (demo_world\<lparr>dir := Some [''20250101T000000_a.ts'', ''0001_init.js'']\<rparr>)
      = Some [''20250101T000000_a.ts'', ''0001_init.js'']
   \<and> endsWith ''0001_init.js'' ''.js'' \<and> match_filename ''0001_init.js'' = None
   \<and> fst (getMigrationFiles (demo_world\<lparr>dir := Some [''20250101T000000_a.ts'', ''0001_init.js'']\<rparr>))
       = Inl (Error (''Invalid migration filename format: '' @ ''0001_init.js''))"
proof -
  let ?w = "demo_world\<lparr>dir := Some [''20250101T000000_a.ts'', ''0001_init.js'']\<rparr>"
  have d: "dir ?w = Some [''20250101T000000_a.ts'', ''0001_init.js'']" by simp
  have bad: "endsWith ''0001_init.js'' ''.js''" "match_filename ''0001_init.js'' = None"
    by (simp_all add: endsWith_def match_filename_def is_digit_def)
  have good: "match_filename ''20250101T000000_a.ts'' \<noteq> None"
    by (simp add: match_filename_def is_digit_def is_line_terminator_def)
  from getMigrationFiles_invalid_name[OF d] bad good
  have "getMigrationFiles ?w = (Inl (Error (''Invalid migration filename format: '' @ ''0001_init.js'')), ?w)"
    by auto
  with d bad show ?thesis by simp
qed

text \<open>The claim as it is written fails: neither entry matches the pattern of the
  specification, and discovery returns a list, which holds a definition for the second
  entry and passes over the first.\<close>

theorem getMigrationFiles_invalid_name_counterexample:
  "\<not> spec_filename_pattern ''README.md''
   \<and> \<not> spec_filename_pattern ''20250101T000000_a-b.ts''
   \<and> fst (getMigrationFiles (demo_world\<lparr>dir := Some [''README.md'', ''20250101T000000_a-b.ts'']\<rparr>))
       = Inr [\<lparr>filename = ''20250101T000000_a-b.ts'', timestamp = ''20250101T000000'', name = ''a-b''\<rparr>]"
  by (simp add: spec_filename_pattern_def is_slug_char_def is_digit_def getMigrationFiles_def
      sort_strings_def endsWith_def match_filename_def is_line_terminator_def)

text \<open>
  Claim C6 against the code. The ledger table exists and has no batch column: runMigrations
  does not call createMigrationsTable, the forward operation of \<open>b\<close> runs, and the statement
  that computes the batch number fails on the missing column. The invocation throws; the
  table still has no batch column, its row no batch, and \<open>b\<close> is applied and not recorded.
  createMigrationsTable itself, called on that table, adds the column and gives the row
  batch 1.
\<close>

theorem runMigrations_legacy_table:
  "runMigrations demo_modules demo_world_legacy =
     (Inl column_missing,
      demo_world_legacy
        \<lparr>store := 2,
         console := [Out ''Migrating: b'', Out ''Migrated: b'', Err ''Migration failed:'' column_missing],
         calls := [Up ''b'' None],
         batch_queries := 1\<rparr>)
   \<and> migrations (snd (runMigrations demo_modules demo_world_legacy))
       = Some \<lparr>has_batch = False,
               rows = [\<lparr>migration_name = ''a'', executed_at = 100, batch = None\<rparr>]\<rparr>
   \<and> migrations (createMigrationsTable demo_world_legacy)
       = Some \<lparr>has_batch = True,
               rows = [\<lparr>migration_name = ''a'', executed_at = 100, batch = Some 1\<rparr>]\<rparr>"
  by (simp add: engine_defs demo_defs demo_world_legacy_def)

subsection \<open>Claim C9: refresh\<close>

lemma same_but_console_refl [simp]: "same_but_console w w"
  by (simp add: same_but_console_def)

lemma same_but_console_sym: "same_but_console w v \<Longrightarrow> same_but_console v w"
  by (simp add: same_but_console_def)

lemma same_but_console_trans:
  "same_but_console w v \<Longrightarrow> same_but_console v u \<Longrightarrow> same_but_console w u"
  by (simp add: same_but_console_def)

lemma same_but_console_log [simp]:
  "same_but_console (log t w) v \<longleftrightarrow> same_but_console w v"
  "same_but_console w (log t v) \<longleftrightarrow> same_but_console w v"
  "same_but_console (w\<lparr>console := c\<rparr>) v \<longleftrightarrow> same_but_console w v"
  "same_but_console w (v\<lparr>console := c\<rparr>) \<longleftrightarrow> same_but_console w v"
  by (auto simp: same_but_console_def)

text \<open>No operation reads the console: on two worlds that differ in the console at most,
  each gives the same result and two worlds that differ in the console at most.\<close>

lemma catch_log_console:
  assumes "fst a = fst b" "same_but_console (snd a) (snd b)"
  shows "fst (catch_log t a) = fst (catch_log t' b)"
    "same_but_console (snd (catch_log t a)) (snd (catch_log t' b))"
  using assms by (cases a; cases b; auto simp: catch_log_def split: sum.splits)+

lemma getMigrationFiles_console:
  assumes "same_but_console w v"
  shows "fst (getMigrationFiles w) = fst (getMigrationFiles v)"
    "same_but_console (snd (getMigrationFiles w)) (snd (getMigrationFiles v))"
  using assms by (auto simp: getMigrationFiles_def same_but_console_def split: option.splits)

lemma executeMigration_console:
  assumes "same_but_console w v"
  shows "fst (executeMigration modules m w) = fst (executeMigration modules m v)"
    "same_but_console (snd (executeMigration modules m w)) (snd (executeMigration modules m v))"
  using assms
  by (auto simp: executeMigration_def isMigrationExecuted_def same_but_console_def catch_log_def
      Let_def log_def split: option.splits sum.splits prod.splits bool.splits)

lemma getNextBatchNumber_console:
  assumes "same_but_console w v"
  shows "fst (getNextBatchNumber w) = fst (getNextBatchNumber v)"
    "same_but_console (snd (getNextBatchNumber w)) (snd (getNextBatchNumber v))"
  using assms
  by (auto simp: getNextBatchNumber_def next_batch_statement_def same_but_console_def)

lemma markMigrationExecuted_console:
  assumes "same_but_console w v"
  shows "fst (markMigrationExecuted n b w) = fst (markMigrationExecuted n b v)"
    "same_but_console (snd (markMigrationExecuted n b w)) (snd (markMigrationExecuted n b v))"
  using assms
  by (auto simp: markMigrationExecuted_def insert_on_conflict_do_nothing_def same_but_console_def
      split: option.splits)

lemma createMigrationsTable_console:
  "same_but_console w v \<Longrightarrow> same_but_console (createMigrationsTable w) (createMigrationsTable v)"
  by (auto simp: createMigrationsTable_def checkColumnExists_def same_but_console_def Let_def log_def
      split: option.splits)

lemma runMigrations_loop_console:
  "same_but_console w v \<Longrightarrow>
     fst (runMigrations_loop modules files st w) = fst (runMigrations_loop modules files st v)
     \<and> same_but_console (snd (runMigrations_loop modules files st w))
          (snd (runMigrations_loop modules files st v))"
proof (induction files arbitrary: st w v)
  case Nil
  then show ?case by (cases st) simp
next
  case (Cons m rest)
  obtain k cb where st: "st = (k, cb)" by (cases st)
  obtain r1 w1 where ew: "executeMigration modules m w = (r1, w1)"
    by (cases "executeMigration modules m w")
  obtain r1' v1 where ev: "executeMigration modules m v = (r1', v1)"
    by (cases "executeMigration modules m v")
  from executeMigration_console[OF Cons.prems, of modules m] ew ev
  have r1: "r1' = r1" and s1: "same_but_console w1 v1" by simp_all
  show ?case
  proof (cases r1)
    case (Inl e)
    with st ew ev r1 s1 show ?thesis by simp
  next
    case (Inr ran)
    show ?thesis
    proof (cases ran)
      case False
      with st ew ev r1 Inr Cons.IH[OF s1] show ?thesis by simp
    next
      case True
      let ?nb = "\<lambda>x. case cb of None \<Rightarrow> getNextBatchNumber x | Some b \<Rightarrow> (Inr b, x)"
      obtain rb wq where qw: "?nb w1 = (rb, wq)" by (cases "?nb w1")
      obtain rb' vq where qv: "?nb v1 = (rb', vq)" by (cases "?nb v1")
      from getNextBatchNumber_console[OF s1] s1 qw qv
      have rb: "rb' = rb" and sq: "same_but_console wq vq"
        by (auto split: option.splits)
      show ?thesis
      proof (cases rb)
        case (Inl e)
        with st ew ev r1 Inr True qw qv rb sq show ?thesis by simp
      next
        case b: (Inr b)
        obtain r2 w2 where mw: "markMigrationExecuted (name m) (Some b) wq = (r2, w2)"
          by (cases "markMigrationExecuted (name m) (Some b) wq")
        obtain r2' v2 where mv: "markMigrationExecuted (name m) (Some b) vq = (r2', v2)"
          by (cases "markMigrationExecuted (name m) (Some b) vq")
        from markMigrationExecuted_console[OF sq, of "name m" "Some b"] mw mv
        have r2: "r2' = r2" and s2: "same_but_console w2 v2" by simp_all
        show ?thesis
        proof (cases r2)
          case (Inl e)
          with st ew ev r1 Inr True b qw qv rb mw mv r2 s2 show ?thesis by simp
        next
          case u: (Inr u)
          with st ew ev r1 Inr True b qw qv rb mw mv r2 Cons.IH[OF s2] show ?thesis by simp
        qed
      qed
    qed
  qed
qed

lemma runMigrations_console:
  assumes "same_but_console w v"
  shows "fst (runMigrations modules w) = fst (runMigrations modules v)
     \<and> same_but_console (snd (runMigrations modules w)) (snd (runMigrations modules v))"
proof -
  let ?w0 = "if \<not> migrationTableExists w then createMigrationsTable w else w"
  let ?v0 = "if \<not> migrationTableExists v then createMigrationsTable v else v"
  have te: "migrationTableExists w = migrationTableExists v"
    using assms by (simp add: migrationTableExists_def same_but_console_def)
  have s0: "same_but_console ?w0 ?v0"
    using assms te createMigrationsTable_console[OF assms] by simp
  obtain rf wd where gw: "getMigrationFiles ?w0 = (rf, wd)" by (cases "getMigrationFiles ?w0")
  obtain rf' vd where gv: "getMigrationFiles ?v0 = (rf', vd)" by (cases "getMigrationFiles ?v0")
  from getMigrationFiles_console[OF s0] gw gv
  have rf: "rf' = rf" and sd: "same_but_console wd vd" by simp_all
  let ?body = "\<lambda>x0. case getMigrationFiles x0 of
             (Inl e, w2) \<Rightarrow> (Inl e, w2)
           | (Inr migrationFiles, w2) \<Rightarrow>
               (case runMigrations_loop modules migrationFiles (0, None) w2 of
                  (Inl e, w3) \<Rightarrow> (Inl e, w3)
                | (Inr (migrationsExecuted, currentBatch), w3) \<Rightarrow>
                    (Inr (),
                     if migrationsExecuted = 0 then log ''Nothing to migrate'' w3
                     else log ''Migrations completed'' w3))"
  have body: "fst (?body ?w0) = fst (?body ?v0) \<and> same_but_console (snd (?body ?w0)) (snd (?body ?v0))"
  proof (cases rf)
    case (Inl e)
    with gw gv rf sd show ?thesis by simp
  next
    case (Inr files)
    obtain rl wl where lw: "runMigrations_loop modules files (0, None) wd = (rl, wl)"
      by (cases "runMigrations_loop modules files (0, None) wd")
    obtain rl' vl where lv: "runMigrations_loop modules files (0, None) vd = (rl', vl)"
      by (cases "runMigrations_loop modules files (0, None) vd")
    from runMigrations_loop_console[OF sd, of modules files "(0, None)"] lw lv
    have rl: "rl' = rl" and sl: "same_but_console wl vl" by simp_all
    show ?thesis
    proof (cases rl)
      case (Inl e)
      with gw gv rf Inr lw lv rl sl show ?thesis by simp
    next
      case st: (Inr st)
      obtain k cb where "st = (k, cb)" by (cases st)
      with gw gv rf Inr lw lv rl sl st show ?thesis by simp
    qed
  qed
  have "runMigrations modules w = catch_log ''Migration failed:'' (?body ?w0)"
    "runMigrations modules v = catch_log ''Migration failed:'' (?body ?v0)"
    by (simp_all add: runMigrations_def Let_def)
  with catch_log_console[of "?body ?w0" "?body ?v0"] body show ?thesis by simp
qed


lemma removeMigrationRecord_console:
  assumes "same_but_console w v"
  shows "fst (removeMigrationRecord n w) = fst (removeMigrationRecord n v)"
    "same_but_console (snd (removeMigrationRecord n w)) (snd (removeMigrationRecord n v))"
  using assms
  by (auto simp: removeMigrationRecord_def same_but_console_def split: option.splits)

lemma rollbackSingleMigration_console:
  assumes "same_but_console w v"
  shows "fst (rollbackSingleMigration modules n w) = fst (rollbackSingleMigration modules n v)
     \<and> same_but_console (snd (rollbackSingleMigration modules n w))
          (snd (rollbackSingleMigration modules n v))"
proof -
  let ?w1 = "log (''Rolling back: '' @ n) w" and ?v1 = "log (''Rolling back: '' @ n) v"
  have s1: "same_but_console ?w1 ?v1" using assms by simp
  obtain rf wd where gw: "getMigrationFiles ?w1 = (rf, wd)" by (cases "getMigrationFiles ?w1")
  obtain rf' vd where gv: "getMigrationFiles ?v1 = (rf', vd)" by (cases "getMigrationFiles ?v1")
  from getMigrationFiles_console[OF s1] gw gv
  have rf: "rf' = rf" and sd: "same_but_console wd vd" by simp_all
  then have st: "store vd = store wd" "calls vd = calls wd" by (simp_all add: same_but_console_def)
  show ?thesis
  proof (cases rf)
    case (Inl e)
    with gw gv rf sd show ?thesis by (simp add: rollbackSingleMigration_def Let_def)
  next
    case (Inr files)
    show ?thesis
    proof (cases "find (\<lambda>m. name m = n) files")
      case None
      with gw gv rf sd Inr show ?thesis by (simp add: rollbackSingleMigration_def Let_def)
    next
      case (Some m)
      show ?thesis
      proof (cases "load_migration_class modules m")
        case (Inl e)
        with gw gv rf sd Inr Some show ?thesis by (simp add: rollbackSingleMigration_def Let_def)
      next
        case c: (Inr c)
        obtain de s where dn: "down c (store wd) = (de, s)" by (cases "down c (store wd)")
        show ?thesis
        proof (cases de)
          case e: (Some e)
          have "same_but_console (wd\<lparr>store := s, calls := calls wd @ [Down n (Some e)]\<rparr>)
                  (vd\<lparr>store := s, calls := calls wd @ [Down n (Some e)]\<rparr>)"
            using sd by (simp add: same_but_console_def)
          with gw gv rf Inr Some c dn e st show ?thesis
            by (simp add: rollbackSingleMigration_def Let_def)
        next
          case None
          let ?w2 = "wd\<lparr>store := s, calls := calls wd @ [Down n None]\<rparr>"
          let ?v2 = "vd\<lparr>store := s, calls := calls wd @ [Down n None]\<rparr>"
          have s2: "same_but_console ?w2 ?v2" using sd by (simp add: same_but_console_def)
          obtain rr w3 where rw: "removeMigrationRecord n ?w2 = (rr, w3)"
            by (cases "removeMigrationRecord n ?w2")
          obtain rr' v3 where rv: "removeMigrationRecord n ?v2 = (rr', v3)"
            by (cases "removeMigrationRecord n ?v2")
          from removeMigrationRecord_console[OF s2, of n] rw rv
          have "rr' = rr" "same_but_console w3 v3" by simp_all
          with gw gv rf Inr Some c dn None st rw rv show ?thesis
            by (cases rr) (simp_all add: rollbackSingleMigration_def Let_def)
        qed
      qed
    qed
  qed
qed

lemma rollback_each_console:
  "same_but_console w v \<Longrightarrow>
     fst (rollback_each modules ns w) = fst (rollback_each modules ns v)
     \<and> same_but_console (snd (rollback_each modules ns w)) (snd (rollback_each modules ns v))"
proof (induction ns arbitrary: w v)
  case Nil
  then show ?case by simp
next
  case (Cons n rest)
  obtain r1 w1 where ow: "rollbackSingleMigration modules n w = (r1, w1)"
    by (cases "rollbackSingleMigration modules n w")
  obtain r1' v1 where ov: "rollbackSingleMigration modules n v = (r1', v1)"
    by (cases "rollbackSingleMigration modules n v")
  from rollbackSingleMigration_console[OF Cons.prems, of modules n] ow ov
  have "r1' = r1" and s1: "same_but_console w1 v1" by simp_all
  with ow ov Cons.IH[OF s1] show ?case by (cases r1) simp_all
qed

lemma rollbackAllMigrations_console:
  assumes "same_but_console w v"
  shows "fst (rollbackAllMigrations modules w) = fst (rollbackAllMigrations modules v)
     \<and> same_but_console (snd (rollbackAllMigrations modules w))
          (snd (rollbackAllMigrations modules v))"
proof -
  let ?w0 = "log ''Rolling back all migrations...'' w"
  let ?v0 = "log ''Rolling back all migrations...'' v"
  have s0: "same_but_console ?w0 ?v0" using assms by simp
  have m: "migrations v = migrations w" using assms by (simp add: same_but_console_def)
  let ?body = "\<lambda>x0. if \<not> migrationTableExists x0 then (Inr (), log table_missing_text x0)
            else
              (case getExecutedMigrations x0 of
                 Inl e \<Rightarrow> (Inl e, x0)
               | Inr executedMigrations \<Rightarrow>
                   (if length executedMigrations = 0 then (Inr (), log ''No migrations to rollback'' x0)
                    else
                      (case rollback_each modules executedMigrations x0 of
                         (Inl e, w1) \<Rightarrow> (Inl e, w1)
                       | (Inr u, w1) \<Rightarrow> (Inr (), log ''All migrations rolled back'' w1))))"
  have body: "fst (?body ?w0) = fst (?body ?v0) \<and> same_but_console (snd (?body ?w0)) (snd (?body ?v0))"
  proof (cases "migrations w")
    case None
    with m s0 show ?thesis by (simp add: migrationTableExists_def)
  next
    case (Some t)
    let ?ns = "map migration_name (order_by_executed_at_desc (rows t))"
    obtain r1 w1 where ew: "rollback_each modules ?ns ?w0 = (r1, w1)"
      by (cases "rollback_each modules ?ns ?w0")
    obtain r1' v1 where ev: "rollback_each modules ?ns ?v0 = (r1', v1)"
      by (cases "rollback_each modules ?ns ?v0")
    from rollback_each_console[OF s0, of modules ?ns] ew ev
    have "r1' = r1" "same_but_console w1 v1" by simp_all
    with Some m s0 ew ev show ?thesis
      by (cases r1) (simp_all add: migrationTableExists_def getExecutedMigrations_def)
  qed
  have "rollbackAllMigrations modules w = catch_log ''Rollback all failed:'' (?body ?w0)"
    "rollbackAllMigrations modules v = catch_log ''Rollback all failed:'' (?body ?v0)"
    by (simp_all add: rollbackAllMigrations_def Let_def)
  with catch_log_console[of "?body ?w0" "?body ?v0"] body show ?thesis by simp
qed


text \<open>
  Claim C9. refreshMigrations gives the result of rollbackAllMigrations followed by
  runMigrations (\<open>refresh_spec\<close>), and the two leave worlds that differ in the console at
  most (refreshMigrations logs lines of its own). If the rollback throws, refreshMigrations
  throws the same error, the world it leaves is the one the rollback left, and it has
  invoked no forward operation.
\<close>

theorem refreshMigrations_refines:
  "fst (refreshMigrations modules w) = fst (refresh_spec modules w)
   \<and> same_but_console (snd (refresh_spec modules w)) (snd (refreshMigrations modules w))
   \<and> (\<forall>e w1. rollbackAllMigrations modules w = (Inl e, w1) \<longrightarrow>
          fst (refreshMigrations modules w) = Inl e
          \<and> same_but_console w1 (snd (refreshMigrations modules w))
          \<and> list_all (\<lambda>c. \<not> is_Up c) (new_calls w (snd (refreshMigrations modules w))))"
proof -
  let ?w0 = "log ''Refreshing migrations (rollback all + re-run)...'' w"
  obtain ra wa where a: "rollbackAllMigrations modules ?w0 = (ra, wa)"
    by (cases "rollbackAllMigrations modules ?w0")
  obtain rb wb where b: "rollbackAllMigrations modules w = (rb, wb)"
    by (cases "rollbackAllMigrations modules w")
  have "same_but_console ?w0 w" by simp
  from rollbackAllMigrations_console[OF this, of modules] a b
  have r: "ra = rb" and s: "same_but_console wa wb" by simp_all
  show ?thesis
  proof (cases rb)
    case (Inl e)
    with a r have rf: "refreshMigrations modules w
        = (Inl e, wa\<lparr>console := console wa @ [Err ''Migration refresh failed:'' e]\<rparr>)"
      by (simp add: refreshMigrations_def Let_def catch_log_def)
    from b Inl have sp: "refresh_spec modules w = (Inl e, wb)" by (simp add: refresh_spec_def)
    have tbl: "migrations w \<noteq> None"
    proof
      assume "migrations w = None"
      then have "fst (rollbackAllMigrations modules w) = Inr ()"
        by (simp add: rollbackAllMigrations_def migrationTableExists_def Let_def)
      with b Inl show False by simp
    qed
    then obtain t where t: "migrations w = Some t" by auto
    from s have "calls wa = calls wb" by (simp add: same_but_console_def)
    then have "new_calls w (snd (refreshMigrations modules w)) = new_calls w wb"
      using rf by (simp add: new_calls_def)
    moreover from rollbackAllMigrations_new_calls[OF t, of modules] b
    have "list_all (\<lambda>c. \<not> is_Up c) (new_calls w wb)" by simp
    ultimately show ?thesis
      using rf sp b Inl s same_but_console_sym[OF s] by simp
  next
    case (Inr u)
    let ?w1 = "log ''Re-running all migrations...'' wa"
    have "same_but_console ?w1 wb" using s by simp
    note run = runMigrations_console[OF this, of modules]
    obtain r2 w2 where run1: "runMigrations modules ?w1 = (r2, w2)"
      by (cases "runMigrations modules ?w1")
    from b Inr have sp: "refresh_spec modules w = runMigrations modules wb"
      by (simp add: refresh_spec_def)
    from a r Inr run1 have "fst (refreshMigrations modules w) = r2
        \<and> same_but_console (snd (refreshMigrations modules w)) w2"
      by (cases r2) (simp_all add: refreshMigrations_def Let_def catch_log_def)
    with run run1 sp b Inr show ?thesis
      by (auto intro: same_but_console_sym same_but_console_trans)
  qed
qed

lemma demo_rollback_all_b_fails:
  "rollbackAllMigrations demo_modules_b_fails demo_world_all_applied =
     (Inl (OperationFailure ''boom''),
      demo_world_all_applied
        \<lparr>migrations := Some \<lparr>has_batch = True,
            rows = [\<lparr>migration_name = ''a'', executed_at = 100, batch = Some 1\<rparr>,
                    \<lparr>migration_name = ''b'', executed_at = 101, batch = Some 1\<rparr>]\<rparr>,
         store := 2,
         console := [Out ''Rolling back all migrations...'', Out ''Rolling back: c'',
                     Out ''Rolled back: c'', Out ''Rolling back: b'',
                     Err ''Rollback all failed:'' (OperationFailure ''boom'')],
         calls := [Down ''c'' None, Down ''b'' (Some (OperationFailure ''boom''))]\<rparr>)"
  by (simp add: engine_defs demo_defs demo_world_all_applied_def)

theorem refreshMigrations_refines_witness:
  "fst (rollbackAllMigrations demo_modules_b_fails demo_world_all_applied)
     = Inl (OperationFailure ''boom'')
   \<and> fst (refreshMigrations demo_modules_b_fails demo_world_all_applied)
       = Inl (OperationFailure ''boom'')
   \<and> list_all (\<lambda>c. \<not> is_Up c)
        (new_calls demo_world_all_applied
           (snd (refreshMigrations demo_modules_b_fails demo_world_all_applied)))"
proof -
  note third = refreshMigrations_refines[of demo_modules_b_fails demo_world_all_applied,
      THEN conjunct2, THEN conjunct2, rule_format, OF demo_rollback_all_b_fails]
  have "fst (rollbackAllMigrations demo_modules_b_fails demo_world_all_applied)
     = Inl (OperationFailure ''boom'')"
    by (simp add: demo_rollback_all_b_fails)
  with third show ?thesis by blast
qed

end
